theory Spec2Isabelle
  imports Main "HOL-Library.AList" "HOL-Library.Sublist"
begin

section \<open>Python values, errors and dictionaries\<close>

text \<open>
  The values that travel through \<^verbatim>\<open>guardrails/guard.py\<close> untyped (keyword
  arguments, prompts, message histories, metadata, remote payloads) are modelled by
  one datatype of Python values. A Python \<^verbatim>\<open>dict\<close> is an association list with
  distinct keys in insertion order; \<^verbatim>\<open>d[k] = v\<close> is \<open>AList.update\<close>, which keeps
  the place of an existing key and appends a new one, as Python does.
\<close>

datatype pyval =
    PNone
  | PBool bool
  | PInt int
  | PStr string
  | PList "pyval list"
  | PDict "(string \<times> pyval) list"

type_synonym 'v dict = "(string \<times> 'v) list"

text \<open>Python truthiness, as used by \<^verbatim>\<open>if x\<close>, \<^verbatim>\<open>not x\<close> and \<^verbatim>\<open>x or y\<close>.\<close>

fun truthy :: "pyval \<Rightarrow> bool" where
  "truthy PNone = False"
| "truthy (PBool b) = b"
| "truthy (PInt i) = (i \<noteq> 0)"
| "truthy (PStr s) = (s \<noteq> [])"
| "truthy (PList xs) = (xs \<noteq> [])"
| "truthy (PDict d) = (d \<noteq> [])"

definition truthy_str :: "string option \<Rightarrow> bool" where
  "truthy_str s = (case s of None \<Rightarrow> False | Some t \<Rightarrow> t \<noteq> [])"

definition truthy_int :: "int option \<Rightarrow> bool" where
  "truthy_int n = (case n of None \<Rightarrow> False | Some i \<Rightarrow> i \<noteq> 0)"

definition py_or :: "pyval \<Rightarrow> pyval \<Rightarrow> pyval" where
  "py_or x y = (if truthy x then x else y)"

text \<open>\<^verbatim>\<open>sep.join(xs)\<close>.\<close>

fun join :: "string \<Rightarrow> string list \<Rightarrow> string" where
  "join sep [] = []"
| "join sep [x] = x"
| "join sep (x # y # ys) = x @ sep @ join sep (y # ys)"

text \<open>
  Every exception the modelled code raises is a value; a function that can raise
  returns \<open>error + 'a\<close> next to the state it leaves behind, since a Python exception
  does not undo the assignments made before it. \<open>RuntimeError\<close> and
  \<open>ValueError\<close> carry their message, \<open>KeyError\<close> the key,
  \<open>UnboundLocalError\<close> the variable, \<open>AttributeError\<close> the attribute
  that could not be read.
\<close>

datatype error =
    RuntimeError string
  | ValueError string
  | KeyError string
  | AttributeError string
  | UnboundLocalError string

text \<open>
  An attribute that the class body only declares (\<^verbatim>\<open>_x: T\<close>, without a value)
  does not exist on an object until it is assigned; reading it before raises
  \<^verbatim>\<open>AttributeError\<close>. Such an attribute is \<open>Unassigned\<close> or holds a value.
\<close>

datatype 'a attr = Unassigned | Assigned 'a

definition read_attr :: "string \<Rightarrow> 'a attr \<Rightarrow> error + 'a" where
  "read_attr name x = (case x of Unassigned \<Rightarrow> Inl (AttributeError name) | Assigned v \<Rightarrow> Inr v)"

section \<open>The Guard and its collaborators\<close>

datatype tracer = Tracer nat

datatype tracer_context = TracerContext nat

datatype output_types = STRING | LIST | DICT

text \<open>A generation target: its \<^verbatim>\<open>__name__\<close>, if it has one, and whether it is a
  coroutine function.\<close>

datatype llm_callable =
  LlmCallable (callable_name: "string option") (iscoroutinefunction: bool)

record credentials =
  cred_id :: "string option"
  no_metrics :: "bool option"

record guard_execution_options =
  eo_prompt :: pyval
  eo_instructions :: pyval
  eo_reask_prompt :: pyval
  eo_reask_instructions :: pyval

text \<open>A resolved validator, and the declarative reference the Guard keeps for it.\<close>

record validator =
  rail_alias :: string
  on_fail_descriptor :: string
  get_args :: "pyval dict"
  required_metadata_keys :: "string list"

record validator_reference =
  ref_id :: string
  ref_on :: string
  ref_on_fail :: string
  ref_kwargs :: "pyval dict"

text \<open>What \<^verbatim>\<open>get_validator\<close> is given: an instance, a class name, or a
  \<^verbatim>\<open>(string_syntax, on_fail)\<close> tuple.\<close>

datatype validator_spec =
    VInstance validator
  | VClass string
  | VTuple string string

text \<open>The fields of a \<^verbatim>\<open>ProcessedSchema\<close> that the constructors read.\<close>

record processed_schema =
  ps_validators :: "validator_reference list"
  ps_validator_map :: "(validator list) dict"
  ps_json_schema :: "pyval dict"
  ps_output_type :: output_types
  ps_exec_opts :: guard_execution_options

subsection \<open>Execution history\<close>

record fail_result =
  error_message :: pyval
  fix_value :: pyval

record field_reask =
  incorrect_value :: pyval
  path :: pyval
  fail_results :: "fail_result list"

record iteration_inputs =
  in_llm_api :: "llm_callable option"
  in_llm_output :: "string option"
  in_instructions :: pyval
  in_prompt :: pyval
  in_prompt_params :: "pyval dict option"
  in_num_reasks :: int
  in_metadata :: "pyval dict option"
  in_full_schema_reask :: "bool option"

record outputs =
  raw_output :: "string option"
  parsed_output :: pyval
  validated_output :: pyval
  reasks :: "field_reask list"

record iteration =
  it_inputs :: iteration_inputs
  it_outputs :: outputs

record call_inputs =
  ci_llm_api :: "llm_callable option"
  ci_prompt :: pyval
  ci_instructions :: pyval
  ci_msg_history :: pyval
  ci_prompt_params :: "pyval dict option"
  ci_num_reasks :: int
  ci_metadata :: "pyval dict option"
  ci_full_schema_reask :: bool
  ci_args :: "pyval list"
  ci_kwargs :: "pyval dict"

record call =
  inputs :: "call_inputs option"
  iterations :: "iteration list"

record validation_outcome =
  raw_llm_output :: "string option"
  vo_validated_output :: pyval
  validation_passed :: bool
  error :: "string option"

subsection \<open>Observable collaborator calls\<close>

text \<open>
  The four execution strategies, and the events by which a run is observed from
  outside: handing the request to one strategy (the call of \<^verbatim>\<open>_call_server\<close>,
  the call of \<^verbatim>\<open>_exec_async\<close>, the call of a \<^verbatim>\<open>StreamRunner\<close> or of a
  \<^verbatim>\<open>Runner\<close> that has been built), and one request to the remote service. The
  \<open>trace\<close> field of the Guard state below collects them, oldest first; no modelled
  function reads it.
\<close>

datatype strategy = Remote | Async | Stream | Sync

datatype event =
    Dispatch strategy
  | ApiValidate "pyval dict" "pyval option"



subsection \<open>The Guard state\<close>

text \<open>
  The attributes of \<^verbatim>\<open>Guard\<close> that the modelled methods read or write. A
  private attribute \<^verbatim>\<open>_x\<close> is the field \<open>g_x\<close>; \<^verbatim>\<open>id\<close> is \<open>guard_id\<close>.
  \<^verbatim>\<open>_history\<close> is the \<^verbatim>\<open>Stack\<close> of Calls, oldest first (\<^verbatim>\<open>push\<close>
  appends); a Call object is named by its position in it. An attribute typed
  \<^verbatim>\<open>Optional\<close> with a class-level value is an option; \<open>g_hub_telemetry\<close> says
  whether \<^verbatim>\<open>_hub_telemetry\<close> holds the telemetry object rather than
  \<^verbatim>\<open>None\<close>.

  The class body gives \<^verbatim>\<open>_base_model\<close>, \<^verbatim>\<open>_exec_opts\<close> and
  \<^verbatim>\<open>_output_type\<close> no value and \<^verbatim>\<open>__init__\<close> does not assign them:
  they are \<open>Unassigned\<close> until a factory constructor stores them, and
  \<^verbatim>\<open>_base_model\<close> is stored by \<^verbatim>\<open>from_pydantic\<close> only.
\<close>

record guard =
  guard_id :: string
  validators :: "validator_reference list"
  output_schema :: "pyval option"
  g_num_reasks :: "int option"
  g_rail :: "string option"
  g_base_model :: "string option attr"
  g_tracer :: "tracer option"
  g_tracer_context :: "tracer_context option"
  g_hub_telemetry :: bool
  g_user_id :: "string option"
  g_validator_map :: "(validator list) dict"
  g_validators :: "validator list"
  g_api_client :: "string option"
  g_allow_metrics_collection :: "bool option"
  g_exec_opts :: "guard_execution_options attr"
  g_output_type :: "output_types attr"
  g_history :: "call list"
  trace :: "event list"

subsection \<open>Remote service records\<close>

text \<open>
  The fields of the remote service's answer that \<^verbatim>\<open>_call_server\<close> reads. One
  entry of \<^verbatim>\<open>session_history\<close> carries an optional list of per-round events,
  which stay opaque values here.
\<close>

record validation_response =
  vr_result :: bool
  vr_validated_output :: pyval
  vr_raw_llm_response :: "string option"
  vr_session_history :: "(pyval list option) list option"

subsection \<open>Runner configuration\<close>

text \<open>The keyword arguments with which \<^verbatim>\<open>Runner\<close>, \<^verbatim>\<open>StreamRunner\<close> and
  \<^verbatim>\<open>AsyncRunner\<close> are constructed. \<open>rc_api\<close> is the target with the positional
  and keyword arguments that \<^verbatim>\<open>get_llm_ask\<close> wraps around it.\<close>

record runner_config =
  rc_output_type :: output_types
  rc_output_schema :: pyval
  rc_num_reasks :: int
  rc_validation_map :: "(validator list) dict"
  rc_prompt :: pyval
  rc_instructions :: pyval
  rc_msg_history :: pyval
  rc_api :: "(llm_callable \<times> pyval list \<times> pyval dict) option"
  rc_metadata :: "pyval dict option"
  rc_output :: "string option"
  rc_base_model :: "string option"
  rc_full_schema_reask :: bool
  rc_disable_tracer :: bool

text \<open>
  The arguments of \<^verbatim>\<open>_execute\<close> and of its closure \<^verbatim>\<open>__exec\<close> (the same
  signature), of \<^verbatim>\<open>_exec_sync\<close> and \<^verbatim>\<open>_exec_async\<close> (the same
  signature), and of \<^verbatim>\<open>_call_server\<close>. \<^verbatim>\<open>call_log\<close> is the position of
  the Call in the history.
\<close>

record exec_args =
  args :: "pyval list"
  llm_api :: "llm_callable option"
  llm_output :: "string option"
  prompt_params :: "pyval dict option"
  num_reasks :: "int option"
  prompt :: pyval
  instructions :: pyval
  msg_history :: pyval
  metadata :: "pyval dict option"
  full_schema_reask :: "bool option"
  kwargs :: "pyval dict"

record runner_args =
  ra_args :: "pyval list"
  ra_llm_api :: "llm_callable option"
  ra_llm_output :: "string option"
  ra_call_log :: nat
  ra_prompt_params :: "pyval dict option"
  ra_num_reasks :: int
  ra_metadata :: "pyval dict option"
  ra_full_schema_reask :: bool
  ra_prompt :: pyval
  ra_instructions :: pyval
  ra_msg_history :: pyval
  ra_kwargs :: "pyval dict"

record server_args =
  sv_args :: "pyval list"
  sv_llm_output :: "string option"
  sv_llm_api :: "llm_callable option"
  sv_num_reasks :: "int option"
  sv_prompt_params :: "pyval dict option"
  sv_metadata :: "pyval dict option"
  sv_full_schema_reask :: "bool option"
  sv_call_log :: "nat option"
  sv_kwargs :: "pyval dict"


text \<open>
  What \<^verbatim>\<open>_execute\<close> hands back: a finished outcome, the coroutine object of
  \<^verbatim>\<open>_exec_async\<close> (its body has not run), or the generator of the
  \<^verbatim>\<open>StreamRunner\<close> (not yet drained).
\<close>

datatype result =
    Outcome validation_outcome
  | Coroutine runner_args
  | StreamGenerator runner_config nat "pyval dict option"

text \<open>The arguments that the factory constructors share.\<close>

record factory_args =
  fa_prompt :: pyval
  fa_instructions :: pyval
  fa_reask_prompt :: pyval
  fa_reask_instructions :: pyval
  fa_num_reasks :: "int option"
  fa_tracer :: "tracer option"

subsection \<open>Code outside the file\<close>

text \<open>
  Functions and classes that \<^verbatim>\<open>guard.py\<close> imports and calls are parameters of
  the model, gathered in one record; every theorem holds for all of them. Where one
  is called for its effect only, the parameter is the exception it raises, if any.
  \<^item> \<open>model_is_supported_server_side\<close>, \<open>get_llm_api_enum\<close>, \<open>get_validator\<close>,
    \<open>get_llm_ask\<close>, \<open>get_async_llm_ask\<close>, \<open>primitive_to_schema\<close>,
    \<open>pydantic_model_to_schema\<close>, \<open>rail_file_to_schema\<close>, \<open>rail_string_to_schema\<close>,
    \<open>random_id\<close>: the imported functions of these names;
  \<^item> \<open>py_str\<close>: the builtin \<^verbatim>\<open>str\<close>, as \<^verbatim>\<open>Template.safe_substitute\<close> applies it;
  \<^item> \<open>safe_get\<close>: \<^verbatim>\<open>guardrails.utils.safe_get.safe_get\<close> on a list of validators;
  \<^item> \<open>model_schema\<close>: the \<^verbatim>\<open>ModelSchema\<close> that \<^verbatim>\<open>__init__\<close> builds from
    the schema dictionary and hands to the superclass, whose field validator may
    refuse it; \<open>schema_to_dict\<close>: its method \<^verbatim>\<open>to_dict\<close>;
  \<^item> \<open>environ_api_key\<close>: the environment variable \<^verbatim>\<open>GUARDRAILS_API_KEY\<close>;
    \<open>upsert_guard\<close>: \<^verbatim>\<open>GuardrailsApiClient.upsert_guard\<close>;
  \<^item> \<open>api_validate\<close>: \<^verbatim>\<open>GuardrailsApiClient.validate\<close>, given the payload and the
    \<^verbatim>\<open>api_key\<close> call keyword argument; \<open>None\<close> is an empty answer;
  \<^item> \<open>remote_iteration\<close>: the construction of one \<^verbatim>\<open>Iteration\<close> from a remote
    history event and the round-trip inputs;
  \<^item> \<open>run\<close>, \<open>async_run\<close>: \<^verbatim>\<open>Runner.__call__\<close> and \<^verbatim>\<open>AsyncRunner.async_run\<close>;
    they return the Call they were given, as they left it, and the exception they
    raised, if any;
  \<^item> \<open>from_guard_history\<close>: \<^verbatim>\<open>ValidationOutcome.from_guard_history\<close>; it
    returns the outcome and the Call as it left it;
  \<^item> \<open>create_new_span\<close>: \<^verbatim>\<open>HubTelemetry.create_new_span\<close>, given the span
    attributes;
  \<^item> \<open>rc_credentials\<close>: \<^verbatim>\<open>Credentials.from_rc_file\<close>;
  \<^item> \<open>get_tracer_context\<close>: the context store after \<^verbatim>\<open>set_tracer\<close> and
    \<^verbatim>\<open>set_tracer_context\<close>;
  \<^item> \<open>rail_output_type\<close>: the evaluation of \<^verbatim>\<open>self.rail.output_type\<close>; the
    file defines no \<^verbatim>\<open>rail\<close> attribute, so it may raise.
\<close>

record env =
  model_is_supported_server_side :: "llm_callable option \<Rightarrow> pyval list \<Rightarrow> pyval dict \<Rightarrow> bool"
  get_llm_api_enum :: "llm_callable \<Rightarrow> pyval"
  get_validator :: "validator_spec \<Rightarrow> pyval list \<Rightarrow> pyval dict \<Rightarrow> error + validator"
  get_llm_ask :: "llm_callable \<Rightarrow> pyval list \<Rightarrow> pyval dict \<Rightarrow> error option"
  get_async_llm_ask :: "llm_callable \<Rightarrow> pyval list \<Rightarrow> pyval dict \<Rightarrow> error option"
  primitive_to_schema :: "validator list \<Rightarrow> pyval \<Rightarrow> error + processed_schema"
  pydantic_model_to_schema :: "string \<Rightarrow> error + processed_schema"
  rail_file_to_schema :: "string \<Rightarrow> error + processed_schema"
  rail_string_to_schema :: "string \<Rightarrow> error + processed_schema"
  random_id :: string
  py_str :: "pyval \<Rightarrow> string"
  safe_get :: "validator list \<Rightarrow> nat \<Rightarrow> validator option"
  model_schema :: "pyval dict \<Rightarrow> error + pyval"
  schema_to_dict :: "pyval \<Rightarrow> error + pyval"
  environ_api_key :: "string option"
  upsert_guard :: "string \<Rightarrow> error option"
  api_validate :: "string \<Rightarrow> pyval dict \<Rightarrow> pyval option \<Rightarrow> validation_response option"
  remote_iteration :: "iteration_inputs \<Rightarrow> pyval \<Rightarrow> error + iteration"
  run :: "runner_config \<Rightarrow> call \<Rightarrow> pyval dict option \<Rightarrow> error option \<times> call"
  async_run :: "runner_config \<Rightarrow> call \<Rightarrow> pyval dict option \<Rightarrow> error option \<times> call"
  from_guard_history :: "call \<Rightarrow> validation_outcome \<times> call"
  create_new_span :: "pyval dict \<Rightarrow> error option"
  rc_credentials :: credentials
  get_tracer_context :: "tracer option \<Rightarrow> tracer_context option"
  rail_output_type :: "error + string"

section \<open>Configuration\<close>

text \<open>\<^verbatim>\<open>Guard._set_num_reasks\<close>: a plain assignment.\<close>

definition set_num_reasks :: "guard \<Rightarrow> int option \<Rightarrow> guard" where
  "set_num_reasks g n = g\<lparr>g_num_reasks := n\<rparr>"

text \<open>\<^verbatim>\<open>Guard._set_tracer\<close>.\<close>

definition set_tracer :: "env \<Rightarrow> guard \<Rightarrow> tracer option \<Rightarrow> guard" where
  "set_tracer env g tracer =
     g\<lparr>g_tracer := tracer, g_tracer_context := get_tracer_context env tracer\<rparr>"

text \<open>
  \<^verbatim>\<open>Guard._configure_telemtry\<close>. The local \<^verbatim>\<open>credentials\<close> is bound only
  when \<^verbatim>\<open>allow_metrics_collection\<close> came in as \<^verbatim>\<open>None\<close>; reading it otherwise
  raises \<^verbatim>\<open>UnboundLocalError\<close>, after \<^verbatim>\<open>_allow_metrics_collection\<close> was
  assigned.
\<close>

definition configure_telemtry :: "env \<Rightarrow> guard \<Rightarrow> bool option \<Rightarrow> (error + unit) \<times> guard" where
  "configure_telemtry env g allow_metrics_collection =
     (let credentials = (case allow_metrics_collection of
                           None \<Rightarrow> Some (rc_credentials env)
                         | Some b \<Rightarrow> None);
          allow = (case allow_metrics_collection of
                     None \<Rightarrow> no_metrics (rc_credentials env) = Some False
                   | Some b \<Rightarrow> b);
          g1 = g\<lparr>g_allow_metrics_collection := Some allow\<rparr>
      in if allow
         then (case credentials of
                 None \<Rightarrow>
                   (Inl (UnboundLocalError ''credentials''), g1)
               | Some c \<Rightarrow>
                   (Inr (),
                    g1\<lparr>g_user_id := Some (case cred_id c of None \<Rightarrow> [] | Some i \<Rightarrow> i),
                       g_hub_telemetry := True\<rparr>))
         else (Inr (), g1))"

text \<open>\<^verbatim>\<open>Guard.configure\<close>: both guards are truthiness tests.\<close>

definition configure ::
  "env \<Rightarrow> guard \<Rightarrow> int option \<Rightarrow> tracer option \<Rightarrow> bool option \<Rightarrow> (error + unit) \<times> guard" where
  "configure env g n tracer allow_metrics_collection =
     (let g1 = (if truthy_int n then set_num_reasks g n else g);
          g2 = (if tracer \<noteq> None then set_tracer env g1 tracer else g1)
      in configure_telemtry env g2 allow_metrics_collection)"

section \<open>The validator map\<close>

text \<open>
  Equality of two Python dictionaries does not look at insertion order; on association
  lists with distinct keys it is equality of the sets of items.
\<close>

definition dict_eq :: "pyval dict \<Rightarrow> pyval dict \<Rightarrow> bool" where
  "dict_eq d e = (set d = set e)"

definition dict_get_default :: "'v dict \<Rightarrow> string \<Rightarrow> 'v \<Rightarrow> 'v" where
  "dict_get_default d k dflt = (case map_of d k of None \<Rightarrow> dflt | Some v \<Rightarrow> v)"

text \<open>
  \<^verbatim>\<open>Guard._fill_validator_map\<close>, the loop over \<^verbatim>\<open>self.validators\<close>.
  \<^verbatim>\<open>entry\<close> is the list stored in the map (or a new empty one); the append and the
  assignment \<^verbatim>\<open>self._validator_map[ref.on] = entry\<close> happen together, only when
  no matching instance was found. A validator object is truthy, so \<^verbatim>\<open>not v\<close> is
  \<open>v = None\<close>.
\<close>

fun fill_validator_map_refs ::
  "env \<Rightarrow> validator_reference list \<Rightarrow> guard \<Rightarrow> (error + unit) \<times> guard" where
  "fill_validator_map_refs env [] g = (Inr (), g)"
| "fill_validator_map_refs env (ref # refs) g =
     (let entry = dict_get_default (g_validator_map g) (ref_on ref) [];
          v = safe_get env
                (filter (\<lambda>v. rail_alias v = ref_id ref
                               \<and> on_fail_descriptor v = ref_on_fail ref
                               \<and> dict_eq (get_args v) (ref_kwargs ref))
                        entry)
                0
      in if v \<noteq> None then fill_validator_map_refs env refs g
         else
           (let serialized_args =
                  map (\<lambda>arg. ''{'' @ py_str env arg @ ''}'') (map snd (ref_kwargs ref));
                string_syntax =
                  (if length serialized_args > 0
                   then ref_id ref @ '': '' @ join '' '' serialized_args
                   else ref_id ref)
            in case get_validator env (VTuple string_syntax (ref_on_fail ref)) [] [] of
                 Inl e \<Rightarrow> (Inl e, g)
               | Inr nv \<Rightarrow>
                   fill_validator_map_refs env refs
                     (g\<lparr>g_validator_map :=
                          AList.update (ref_on ref) (entry @ [nv]) (g_validator_map g)\<rparr>)))"

definition fill_validator_map :: "env \<Rightarrow> guard \<Rightarrow> (error + unit) \<times> guard" where
  "fill_validator_map env g = fill_validator_map_refs env (validators g) g"

text \<open>\<^verbatim>\<open>Guard._fill_validators\<close>: the lists of the map, in key order.\<close>

definition fill_validators :: "guard \<Rightarrow> guard" where
  "fill_validators g = g\<lparr>g_validators := concat (map snd (g_validator_map g))\<rparr>"

text \<open>
  \<^verbatim>\<open>Guard.__init__\<close>. The new object has the class-level values of the
  private attributes; the validator containers are emptied, then filled from the
  references; the history is a new \<^verbatim>\<open>Stack\<close>; with an API key in the
  environment the client is made and the Guard is upserted. The name and the
  description go to the superclass and are not kept here. An exception leaves no
  object.
\<close>

definition init ::
  "env \<Rightarrow> string option \<Rightarrow> validator_reference list \<Rightarrow> pyval dict \<Rightarrow> error + guard" where
  "init env ident refs schema_dict =
     (case model_schema env schema_dict of
        Inl e \<Rightarrow> Inl e
      | Inr ms \<Rightarrow>
          (case fill_validator_map env
                  \<lparr>guard_id = (case ident of None \<Rightarrow> random_id env
                               | Some i \<Rightarrow> if i = [] then random_id env else i),
                   validators = refs, output_schema = Some ms, g_num_reasks = None,
                   g_rail = None, g_base_model = Unassigned, g_tracer = None,
                   g_tracer_context = None, g_hub_telemetry = False, g_user_id = None,
                   g_validator_map = [], g_validators = [], g_api_client = None,
                   g_allow_metrics_collection = None, g_exec_opts = Unassigned,
                   g_output_type = Unassigned, g_history = [], trace = []\<rparr> of
             (Inl e, g1) \<Rightarrow> Inl e
           | (Inr u, g1) \<Rightarrow>
               (let g2 = (fill_validators g1)\<lparr>g_history := []\<rparr>
                in case environ_api_key env of
                     None \<Rightarrow> Inr g2
                   | Some api_key \<Rightarrow>
                       (case upsert_guard env api_key of
                          Some e \<Rightarrow> Inl e
                        | None \<Rightarrow> Inr (g2\<lparr>g_api_client := Some api_key\<rparr>)))))"

text \<open>
  The factory constructors. Each builds the object from the schema's references,
  configures it, and then overwrites \<^verbatim>\<open>_validator_map\<close> with the schema's
  validator map and assigns \<^verbatim>\<open>_exec_opts\<close> and \<^verbatim>\<open>_output_type\<close>.
  \<open>finish_guard\<close> is the part they share: lines 336 to 339, 495 to 498 and 553
  to 556. The public ones first store the tracer on the class
  (\<^verbatim>\<open>cls._set_tracer(cls, tracer)\<close>), which the new object shows as its own:
  that is the \<open>set_tracer\<close> applied to the object they build.
\<close>

definition finish_guard ::
  "env \<Rightarrow> guard \<Rightarrow> factory_args \<Rightarrow> processed_schema \<Rightarrow> guard_execution_options
     \<Rightarrow> error + guard" where
  "finish_guard env g fa schema exec_opts =
     (case configure env g (fa_num_reasks fa) (fa_tracer fa) None of
        (Inl e, g1) \<Rightarrow> Inl e
      | (Inr u, g1) \<Rightarrow>
          Inr (g1\<lparr>g_validator_map := ps_validator_map schema,
                  g_exec_opts := Assigned exec_opts,
                  g_output_type := Assigned (ps_output_type schema)\<rparr>))"

definition factory_exec_opts :: "factory_args \<Rightarrow> guard_execution_options" where
  "factory_exec_opts fa =
     \<lparr>eo_prompt = fa_prompt fa, eo_instructions = fa_instructions fa,
      eo_reask_prompt = fa_reask_prompt fa,
      eo_reask_instructions = fa_reask_instructions fa\<rparr>"

text \<open>\<^verbatim>\<open>Guard._from_rail_schema\<close>, \<^verbatim>\<open>Guard.from_rail\<close> and
  \<^verbatim>\<open>Guard.from_rail_string\<close>.\<close>

definition from_rail_schema ::
  "env \<Rightarrow> processed_schema \<Rightarrow> string \<Rightarrow> factory_args \<Rightarrow> error + guard" where
  "from_rail_schema env schema rail fa =
     (case init env None (ps_validators schema) (ps_json_schema schema) of
        Inl e \<Rightarrow> Inl e
      | Inr g \<Rightarrow>
          (case finish_guard env g fa schema (ps_exec_opts schema) of
             Inl e \<Rightarrow> Inl e
           | Inr g1 \<Rightarrow> Inr (g1\<lparr>g_rail := Some rail\<rparr>)))"

definition from_rail :: "env \<Rightarrow> string \<Rightarrow> factory_args \<Rightarrow> error + guard" where
  "from_rail env rail_file fa =
     (case rail_file_to_schema env rail_file of
        Inl e \<Rightarrow> Inl e
      | Inr schema \<Rightarrow>
          (case from_rail_schema env schema rail_file fa of
             Inl e \<Rightarrow> Inl e
           | Inr g \<Rightarrow> Inr (set_tracer env g (fa_tracer fa))))"

definition from_rail_string :: "env \<Rightarrow> string \<Rightarrow> factory_args \<Rightarrow> error + guard" where
  "from_rail_string env rail_string fa =
     (case rail_string_to_schema env rail_string of
        Inl e \<Rightarrow> Inl e
      | Inr schema \<Rightarrow>
          (case from_rail_schema env schema rail_string fa of
             Inl e \<Rightarrow> Inl e
           | Inr g \<Rightarrow> Inr (set_tracer env g (fa_tracer fa))))"

text \<open>\<^verbatim>\<open>Guard.from_pydantic\<close>: the only place where \<^verbatim>\<open>_base_model\<close> is
  assigned.\<close>

definition from_pydantic :: "env \<Rightarrow> string \<Rightarrow> factory_args \<Rightarrow> error + guard" where
  "from_pydantic env output_class fa =
     (case pydantic_model_to_schema env output_class of
        Inl e \<Rightarrow> Inl e
      | Inr schema \<Rightarrow>
          (case init env None (ps_validators schema) (ps_json_schema schema) of
             Inl e \<Rightarrow> Inl e
           | Inr g \<Rightarrow>
               (case finish_guard env (set_tracer env g (fa_tracer fa)) fa schema
                       (factory_exec_opts fa) of
                  Inl e \<Rightarrow> Inl e
                | Inr g1 \<Rightarrow> Inr (g1\<lparr>g_base_model := Assigned (Some output_class)\<rparr>))))"

text \<open>\<^verbatim>\<open>Guard.from_string\<close>.\<close>

definition from_string :: "env \<Rightarrow> validator list \<Rightarrow> pyval \<Rightarrow> factory_args \<Rightarrow> error + guard" where
  "from_string env vs string_description fa =
     (case primitive_to_schema env vs string_description of
        Inl e \<Rightarrow> Inl e
      | Inr schema \<Rightarrow>
          (case init env None (ps_validators schema) (ps_json_schema schema) of
             Inl e \<Rightarrow> Inl e
           | Inr g \<Rightarrow>
               finish_guard env (set_tracer env g (fa_tracer fa)) fa schema
                 (factory_exec_opts fa)))"

text \<open>
  \<^verbatim>\<open>Guard.__add_validator\<close>. The output type is read first. The two statements
  on the map are kept apart: first
  \<^verbatim>\<open>self._validator_map[on] = self._validator_map.get(on, [])\<close>, then the
  append to the list now stored under \<^verbatim>\<open>on\<close>.
\<close>

definition add_validator :: "guard \<Rightarrow> validator \<Rightarrow> string \<Rightarrow> (error + unit) \<times> guard" where
  "add_validator g v on =
     (case read_attr ''_output_type'' (g_output_type g) of
        Inl e \<Rightarrow> (Inl e, g)
      | Inr output_type \<Rightarrow>
          if output_type \<noteq> STRING
          then (Inl (RuntimeError ''The `use` method is only available for string output types.''),
                g)
          else
            (let on1 = (if on = ''output'' then ''$'' else on);
                 validator_reference =
                   \<lparr>ref_id = rail_alias v, ref_on = on1,
                    ref_on_fail = on_fail_descriptor v, ref_kwargs = get_args v\<rparr>;
                 g1 = g\<lparr>validators := validators g @ [validator_reference]\<rparr>;
                 g2 = g1\<lparr>g_validator_map :=
                            AList.update on1 (dict_get_default (g_validator_map g1) on1 [])
                              (g_validator_map g1)\<rparr>
             in case map_of (g_validator_map g2) on1 of
                  None \<Rightarrow> (Inl (KeyError on1), g2)
                | Some entry \<Rightarrow>
                    (Inr (),
                     g2\<lparr>g_validator_map := AList.update on1 (entry @ [v]) (g_validator_map g2),
                        g_validators := g_validators g2 @ [v]\<rparr>)))"

text \<open>\<^verbatim>\<open>Guard.use\<close>.\<close>

definition use ::
  "env \<Rightarrow> guard \<Rightarrow> validator_spec \<Rightarrow> pyval list \<Rightarrow> string \<Rightarrow> pyval dict
     \<Rightarrow> (error + unit) \<times> guard" where
  "use env g v vargs on vkwargs =
     (case get_validator env v vargs vkwargs of
        Inl e \<Rightarrow> (Inl e, g)
      | Inr hydrated_validator \<Rightarrow> add_validator g hydrated_validator on)"

text \<open>\<^verbatim>\<open>Guard.use_many\<close>: the loop stops at the first exception and keeps what
  the earlier rounds added.\<close>

fun use_many_loop ::
  "env \<Rightarrow> validator_spec list \<Rightarrow> string \<Rightarrow> guard \<Rightarrow> (error + unit) \<times> guard" where
  "use_many_loop env [] on g = (Inr (), g)"
| "use_many_loop env (v # vs) on g =
     (case get_validator env v [] [] of
        Inl e \<Rightarrow> (Inl e, g)
      | Inr hydrated_validator \<Rightarrow>
          (case add_validator g hydrated_validator on of
             (Inl e, g1) \<Rightarrow> (Inl e, g1)
           | (Inr u, g1) \<Rightarrow> use_many_loop env vs on g1))"

definition use_many ::
  "env \<Rightarrow> guard \<Rightarrow> validator_spec list \<Rightarrow> string \<Rightarrow> (error + unit) \<times> guard" where
  "use_many env g vs on =
     (case rail_output_type env of
        Inl e \<Rightarrow> (Inl e, g)
      | Inr t \<Rightarrow>
          if t \<noteq> ''str''
          then (Inl (RuntimeError
                  ''The `use_many` method is only available for string output types.''), g)
          else use_many_loop env vs on g)"

text \<open>The invariant of the validator map: no path is stored with an empty list.\<close>

definition validator_map_ok :: "(validator list) dict \<Rightarrow> bool" where
  "validator_map_ok m = list_all (\<lambda>kv. snd kv \<noteq> []) m"

section \<open>Execution\<close>

definition quoted :: "string \<Rightarrow> string" where
  "quoted s = [CHR 0x27] @ s @ [CHR 0x27]"

text \<open>Modelled from the spec: \<^verbatim>\<open>guardrails.utils.validator_utils.verify_metadata_requirements\<close>
  is imported by \<^verbatim>\<open>guard.py\<close> and is not part of the file. The specification
  says that every validator that declares required metadata fields must find them in
  the supplied metadata map, and that the error names all missing keys: the function
  returns every required key that the map lacks, each once, in the validators' order.
  Without a map, no key is present.
\<close>

definition verify_metadata_requirements ::
  "pyval dict option \<Rightarrow> validator list \<Rightarrow> string list" where
  "verify_metadata_requirements md vs =
     remdups (filter (\<lambda>k. k \<notin> fst ` set (case md of None \<Rightarrow> [] | Some m \<Rightarrow> m))
                     (concat (map required_metadata_keys vs)))"

text \<open>Applying a function to the Call at one position of the history.\<close>

definition update_call :: "nat \<Rightarrow> (call \<Rightarrow> call) \<Rightarrow> guard \<Rightarrow> guard" where
  "update_call i f g =
     (if i < length (g_history g)
      then g\<lparr>g_history := (g_history g)[i := f (g_history g ! i)]\<rparr>
      else g)"

text \<open>
  The construction of a runner, as \<^verbatim>\<open>_exec_sync\<close> and \<^verbatim>\<open>_exec_async\<close>
  write it. The keyword arguments are evaluated in the order written, so the reads
  that can raise come in this order: \<^verbatim>\<open>self._output_type\<close>,
  \<^verbatim>\<open>self.output_schema.to_dict()\<close>, \<^verbatim>\<open>self._base_model\<close>. \<open>api\<close> is the
  adapter made before.
\<close>

definition mk_runner_config ::
  "env \<Rightarrow> guard \<Rightarrow> runner_args \<Rightarrow> (llm_callable \<times> pyval list \<times> pyval dict) option
     \<Rightarrow> error + runner_config" where
  "mk_runner_config env g ra api =
     (case read_attr ''_output_type'' (g_output_type g) of
        Inl e \<Rightarrow> Inl e
      | Inr output_type \<Rightarrow>
          (case output_schema g of
             None \<Rightarrow> Inl (AttributeError ''to_dict'')
           | Some ms \<Rightarrow>
               (case schema_to_dict env ms of
                  Inl e \<Rightarrow> Inl e
                | Inr schema_dict \<Rightarrow>
                    (case read_attr ''_base_model'' (g_base_model g) of
                       Inl e \<Rightarrow> Inl e
                     | Inr base_model \<Rightarrow>
                         Inr \<lparr>rc_output_type = output_type,
                              rc_output_schema = schema_dict,
                              rc_num_reasks = ra_num_reasks ra,
                              rc_validation_map = g_validator_map g,
                              rc_prompt = ra_prompt ra,
                              rc_instructions = ra_instructions ra,
                              rc_msg_history = ra_msg_history ra,
                              rc_api = api,
                              rc_metadata = ra_metadata ra,
                              rc_output = ra_llm_output ra,
                              rc_base_model = base_model,
                              rc_full_schema_reask = ra_full_schema_reask ra,
                              rc_disable_tracer =
                                (g_allow_metrics_collection g \<noteq> Some True)\<rparr>))))"

text \<open>
  The adapter of the target: \<^verbatim>\<open>get_llm_ask(llm_api, *args, **kwargs)\<close> (or its
  asynchronous twin) when there is a target, \<^verbatim>\<open>None\<close> otherwise.
\<close>

definition llm_ask ::
  "(llm_callable \<Rightarrow> pyval list \<Rightarrow> pyval dict \<Rightarrow> error option) \<Rightarrow> runner_args
     \<Rightarrow> error + (llm_callable \<times> pyval list \<times> pyval dict) option" where
  "llm_ask getter ra =
     (case ra_llm_api ra of
        None \<Rightarrow> Inr None
      | Some f \<Rightarrow>
          (case getter f (ra_args ra) (ra_kwargs ra) of
             Some e \<Rightarrow> Inl e
           | None \<Rightarrow> Inr (Some (f, ra_args ra, ra_kwargs ra))))"

text \<open>
  The tail shared by \<^verbatim>\<open>_exec_sync\<close> and \<^verbatim>\<open>_exec_async\<close>: the runner works
  on the Call object, which the history holds too, and the outcome is assembled from
  the Call it returns. An exception of the runner leaves the Call as the runner left
  it. A position outside the history names no Call, and the model stops there;
  \<^verbatim>\<open>__exec\<close> passes the position of the Call it has just pushed.
\<close>

definition run_and_assemble ::
  "env \<Rightarrow> (runner_config \<Rightarrow> call \<Rightarrow> pyval dict option \<Rightarrow> error option \<times> call)
     \<Rightarrow> runner_config \<Rightarrow> guard \<Rightarrow> runner_args \<Rightarrow> (error + result) \<times> guard" where
  "run_and_assemble env runner cfg g ra =
     (if ra_call_log ra < length (g_history g)
      then
        (case runner cfg (g_history g ! ra_call_log ra) (ra_prompt_params ra) of
           (Some e, c) \<Rightarrow> (Inl e, update_call (ra_call_log ra) (\<lambda>_. c) g)
         | (None, c) \<Rightarrow>
             (case from_guard_history env c of
                (outcome, c1) \<Rightarrow> (Inr (Outcome outcome), update_call (ra_call_log ra) (\<lambda>_. c1) g)))
      else (Inl (RuntimeError ''call_log is not a Call of this Guard''), g))"

text \<open>
  \<^verbatim>\<open>Guard._exec_sync\<close>: the adapter first; then the \<^verbatim>\<open>stream\<close> keyword
  argument, read with \<^verbatim>\<open>kwargs.get("stream", False)\<close>, chooses between the
  \<^verbatim>\<open>StreamRunner\<close>, whose generator is returned, and the \<^verbatim>\<open>Runner\<close>. The
  request is handed to a runner once the runner has been built.
\<close>

definition exec_sync :: "env \<Rightarrow> guard \<Rightarrow> runner_args \<Rightarrow> (error + result) \<times> guard" where
  "exec_sync env g ra =
     (case llm_ask (get_llm_ask env) ra of
        Inl e \<Rightarrow> (Inl e, g)
      | Inr api \<Rightarrow>
          if truthy (dict_get_default (ra_kwargs ra) ''stream'' (PBool False))
          then (case mk_runner_config env g ra api of
                  Inl e \<Rightarrow> (Inl e, g)
                | Inr cfg \<Rightarrow>
                    (Inr (StreamGenerator cfg (ra_call_log ra) (ra_prompt_params ra)),
                     g\<lparr>trace := trace g @ [Dispatch Stream]\<rparr>))
          else (case mk_runner_config env g ra api of
                  Inl e \<Rightarrow> (Inl e, g)
                | Inr cfg \<Rightarrow>
                    run_and_assemble env (run env) cfg
                      (g\<lparr>trace := trace g @ [Dispatch Sync]\<rparr>) ra))"

text \<open>\<^verbatim>\<open>Guard._exec_async\<close>: what awaiting the coroutine does.\<close>

definition exec_async :: "env \<Rightarrow> guard \<Rightarrow> runner_args \<Rightarrow> (error + result) \<times> guard" where
  "exec_async env g ra =
     (case llm_ask (get_async_llm_ask env) ra of
        Inl e \<Rightarrow> (Inl e, g)
      | Inr api \<Rightarrow>
          (case mk_runner_config env g ra api of
             Inl e \<Rightarrow> (Inl e, g)
           | Inr cfg \<Rightarrow> run_and_assemble env (async_run env) cfg g ra))"

subsection \<open>Remote delegation\<close>

text \<open>
  The Call that \<^verbatim>\<open>_call_server\<close> extends is either one of the history or, when
  \<^verbatim>\<open>call_log\<close> came in as \<^verbatim>\<open>None\<close>, a new \<^verbatim>\<open>Call()\<close> that only the local
  variable holds.
\<close>

datatype call_ref = InHistory nat | Fresh call

text \<open>The list comprehension over \<^verbatim>\<open>history_events\<close>: the first exception ends it.\<close>

fun remote_iterations :: "env \<Rightarrow> iteration_inputs \<Rightarrow> pyval list \<Rightarrow> error + iteration list" where
  "remote_iterations env inp [] = Inr []"
| "remote_iterations env inp (h # hs) =
     (case remote_iteration env inp h of
        Inl e \<Rightarrow> Inl e
      | Inr it \<Rightarrow>
          (case remote_iterations env inp hs of
             Inl e \<Rightarrow> Inl e
           | Inr its \<Rightarrow> Inr (it # its)))"

text \<open>
  The loop over \<^verbatim>\<open>session_history\<close>: an entry without events is skipped; the
  Iterations of the others are appended to the Call, which is pushed on the history
  if the history is empty.
\<close>

fun merge_session_history ::
  "env \<Rightarrow> iteration_inputs \<Rightarrow> (pyval list option) list \<Rightarrow> guard \<Rightarrow> call_ref
     \<Rightarrow> (error + unit) \<times> guard" where
  "merge_session_history env inp [] g r = (Inr (), g)"
| "merge_session_history env inp (None # hs) g r = merge_session_history env inp hs g r"
| "merge_session_history env inp (Some history_events # hs) g r =
     (case remote_iterations env inp history_events of
        Inl e \<Rightarrow> (Inl e, g)
      | Inr its \<Rightarrow>
          (case r of
             InHistory i \<Rightarrow>
               merge_session_history env inp hs
                 (update_call i (\<lambda>c. c\<lparr>iterations := iterations c @ its\<rparr>) g) r
           | Fresh c \<Rightarrow>
               (let c1 = c\<lparr>iterations := iterations c @ its\<rparr>
                in if length (g_history g) = 0
                   then merge_session_history env inp hs (g\<lparr>g_history := [c1]\<rparr>) (InHistory 0)
                   else merge_session_history env inp hs g (Fresh c1))))"

text \<open>
  \<^verbatim>\<open>Guard._call_server\<close>, in three parts. First the payload of the request:
  the positional arguments, the keyword arguments over them, then the four optional
  fields.
\<close>

definition server_payload :: "env \<Rightarrow> server_args \<Rightarrow> pyval dict" where
  "server_payload env sv =
     (let payload0 = [(''args'', PList (sv_args sv))];
          payload1 = fold (\<lambda>kv. AList.update (fst kv) (snd kv)) (sv_kwargs sv) payload0;
          payload2 = (case sv_llm_output sv of
                        None \<Rightarrow> payload1
                      | Some s \<Rightarrow> AList.update ''llmOutput'' (PStr s) payload1);
          payload3 = (case sv_num_reasks sv of
                        None \<Rightarrow> payload2
                      | Some n \<Rightarrow> AList.update ''numReasks'' (PInt n) payload2);
          payload4 = (case sv_prompt_params sv of
                        None \<Rightarrow> payload3
                      | Some pp \<Rightarrow> AList.update ''promptParams'' (PDict pp) payload3)
      in case sv_llm_api sv of
           None \<Rightarrow> payload4
         | Some f \<Rightarrow> AList.update ''llmApi'' (get_llm_api_enum env f) payload4)"

text \<open>
  Last, for an answer that is there: the Call to extend (\<^verbatim>\<open>call_log or Call()\<close>),
  the merge of the session history, and the outcome built from the answer. The
  instructions and the prompt of an Iteration's Inputs come from its event:
  \<open>remote_iteration\<close> fills them in.
\<close>

definition merge_response ::
  "env \<Rightarrow> guard \<Rightarrow> server_args \<Rightarrow> validation_response \<Rightarrow> (error + result) \<times> guard" where
  "merge_response env g sv validation_output =
     (let r = (case sv_call_log sv of
                 Some i \<Rightarrow> InHistory i
               | None \<Rightarrow> Fresh \<lparr>inputs = None, iterations = []\<rparr>);
          session_history = (case vr_session_history validation_output of
                               None \<Rightarrow> []
                             | Some sh \<Rightarrow> sh);
          inp = \<lparr>in_llm_api = sv_llm_api sv,
                 in_llm_output = sv_llm_output sv,
                 in_instructions = PNone,
                 in_prompt = PNone,
                 in_prompt_params = sv_prompt_params sv,
                 in_num_reasks = (case sv_num_reasks sv of None \<Rightarrow> 0 | Some n \<Rightarrow> n),
                 in_metadata = sv_metadata sv,
                 in_full_schema_reask = sv_full_schema_reask sv\<rparr>
      in case merge_session_history env inp session_history g r of
           (Inl e, g2) \<Rightarrow> (Inl e, g2)
         | (Inr u, g2) \<Rightarrow>
             (Inr (Outcome \<lparr>raw_llm_output = vr_raw_llm_response validation_output,
                            vo_validated_output = vr_validated_output validation_output,
                            validation_passed = vr_result validation_output,
                            error = None\<rparr>),
              g2))"

text \<open>
  In between, the request itself. \<open>call_kwargs\<close> is what \<^verbatim>\<open>get_call_kwarg\<close>
  reads: the keyword arguments that \<^verbatim>\<open>set_call_kwargs\<close> stored in the
  execution context. An empty answer of the service ends the method with the fixed
  failed outcome, before the Call is touched.
\<close>

definition call_server ::
  "env \<Rightarrow> guard \<Rightarrow> pyval dict \<Rightarrow> server_args \<Rightarrow> (error + result) \<times> guard" where
  "call_server env g call_kwargs sv =
     (case g_api_client g of
        None \<Rightarrow> (Inl (ValueError ''Guard does not have an api client!''), g)
      | Some client \<Rightarrow>
          (let payload = server_payload env sv;
               api_key = map_of call_kwargs ''api_key'';
               g1 = g\<lparr>trace := trace g @ [ApiValidate payload api_key]\<rparr>
           in case api_validate env client payload api_key of
                None \<Rightarrow>
                  (Inr (Outcome \<lparr>raw_llm_output = None, vo_validated_output = PNone,
                                 validation_passed = False,
                                 error = Some ''The response from the server was empty!''\<rparr>),
                   g1)
              | Some validation_output \<Rightarrow> merge_response env g1 sv validation_output))"

subsection \<open>The router\<close>

text \<open>
  The closure \<^verbatim>\<open>__exec\<close> of \<^verbatim>\<open>_execute\<close>, in the order of its statements.
  It begins (lines 604 to 630) with the effective \<^verbatim>\<open>full_schema_reask\<close>,
  which reads \<^verbatim>\<open>self._base_model\<close> when the caller gave none, and with the
  telemetry span, made only when metrics collection is on: the method is looked up
  on \<^verbatim>\<open>self._hub_telemetry\<close>, then the span attributes are evaluated, among
  them the \<^verbatim>\<open>__name__\<close> of the target and two reads of
  \<^verbatim>\<open>self._exec_opts\<close>. The context variables set next are
  not part of the Guard state.
\<close>

definition span_attributes ::
  "guard \<Rightarrow> string \<Rightarrow> guard_execution_options \<Rightarrow> pyval dict" where
  "span_attributes g llm_api_name exec_opts =
     [(''guard_id'', PStr (guard_id g)),
      (''user_id'', (case g_user_id g of None \<Rightarrow> PNone | Some u \<Rightarrow> PStr u)),
      (''llm_api'', PStr llm_api_name),
      (''custom_reask_prompt'', PBool (eo_reask_prompt exec_opts \<noteq> PNone)),
      (''custom_reask_instructions'', PBool (eo_reask_instructions exec_opts \<noteq> PNone))]"

definition exec_begin :: "env \<Rightarrow> guard \<Rightarrow> exec_args \<Rightarrow> error + bool" where
  "exec_begin env g a =
     (case (case full_schema_reask a of
              Some b \<Rightarrow> Inr b
            | None \<Rightarrow>
                (case read_attr ''_base_model'' (g_base_model g) of
                   Inl e \<Rightarrow> Inl e
                 | Inr base_model \<Rightarrow> Inr (base_model \<noteq> None))) of
        Inl e \<Rightarrow> Inl e
      | Inr fsr \<Rightarrow>
          if g_allow_metrics_collection g = Some True
          then (if \<not> g_hub_telemetry g
                then Inl (AttributeError ''create_new_span'')
                else (case (case llm_api a of
                              None \<Rightarrow> Inr ''None''
                            | Some f \<Rightarrow>
                                (case callable_name f of
                                   None \<Rightarrow> Inl (AttributeError ''__name__'')
                                 | Some n \<Rightarrow> Inr n)) of
                        Inl e \<Rightarrow> Inl e
                      | Inr llm_api_name \<Rightarrow>
                          (case read_attr ''_exec_opts'' (g_exec_opts g) of
                             Inl e \<Rightarrow> Inl e
                           | Inr exec_opts \<Rightarrow>
                               (case create_new_span env
                                       (span_attributes g llm_api_name exec_opts) of
                                  Some e \<Rightarrow> Inl e
                                | None \<Rightarrow> Inr fsr))))
          else Inr fsr)"

text \<open>\<^verbatim>\<open>x or self._exec_opts.field\<close>: the attribute is read only when \<open>x\<close> is
  falsy.\<close>

definition or_exec_opt ::
  "pyval \<Rightarrow> (guard_execution_options \<Rightarrow> pyval) \<Rightarrow> guard \<Rightarrow> error + pyval" where
  "or_exec_opt x field g =
     (if truthy x then Inr x
      else (case read_attr ''_exec_opts'' (g_exec_opts g) of
              Inl e \<Rightarrow> Inl e
            | Inr exec_opts \<Rightarrow> Inr (field exec_opts)))"

text \<open>
  Then (lines 632 to 655) the caller's \<^verbatim>\<open>num_reasks\<close> is assigned to the Guard
  and checked not to be \<^verbatim>\<open>None\<close>; the prompt and the instructions of the Call
  inputs fall back on \<^verbatim>\<open>self._exec_opts\<close>; the new Call is pushed on the
  history. What comes out are the keyword arguments that every strategy is then
  called with.
\<close>

definition exec_prepare :: "env \<Rightarrow> guard \<Rightarrow> exec_args \<Rightarrow> (error + runner_args) \<times> guard" where
  "exec_prepare env g a =
     (case exec_begin env g a of
        Inl e \<Rightarrow> (Inl e, g)
      | Inr fsr \<Rightarrow>
          (let g1 = set_num_reasks g (num_reasks a)
           in case g_num_reasks g1 of
                None \<Rightarrow>
                  (Inl (RuntimeError
                     ''`num_reasks` is `None` after calling `configure()`. This should never happen.''),
                   g1)
              | Some n \<Rightarrow>
                  (case or_exec_opt (prompt a) eo_prompt g1 of
                     Inl e \<Rightarrow> (Inl e, g1)
                   | Inr input_prompt \<Rightarrow>
                       (case or_exec_opt (instructions a) eo_instructions g1 of
                          Inl e \<Rightarrow> (Inl e, g1)
                        | Inr input_instructions \<Rightarrow>
                            (let call_inputs =
                                   \<lparr>ci_llm_api = llm_api a,
                                    ci_prompt = input_prompt,
                                    ci_instructions = input_instructions,
                                    ci_msg_history = msg_history a,
                                    ci_prompt_params = prompt_params a,
                                    ci_num_reasks = n,
                                    ci_metadata = metadata a,
                                    ci_full_schema_reask = fsr,
                                    ci_args = args a,
                                    ci_kwargs = kwargs a\<rparr>;
                                 call_log = length (g_history g1);
                                 g2 = g1\<lparr>g_history :=
                                           g_history g1
                                             @ [\<lparr>inputs = Some call_inputs, iterations = []\<rparr>]\<rparr>
                             in (Inr \<lparr>ra_args = args a,
                                      ra_llm_api = llm_api a,
                                      ra_llm_output = llm_output a,
                                      ra_call_log = call_log,
                                      ra_prompt_params = prompt_params a,
                                      ra_num_reasks = n,
                                      ra_metadata = metadata a,
                                      ra_full_schema_reask = fsr,
                                      ra_prompt = prompt a,
                                      ra_instructions = instructions a,
                                      ra_msg_history = msg_history a,
                                      ra_kwargs = kwargs a\<rparr>,
                                 g2))))))"

text \<open>
  Last (lines 657 to 701) the choice of the strategy. \<^verbatim>\<open>_call_server\<close> is not
  given the prompt, the instructions, the message history or the metadata (its
  \<^verbatim>\<open>metadata\<close> is the default \<^verbatim>\<open>{}\<close>); \<^verbatim>\<open>_exec_async\<close> is a coroutine
  function, so the call only makes the coroutine object.
\<close>

definition server_args_of :: "runner_args \<Rightarrow> server_args" where
  "server_args_of ra =
     \<lparr>sv_args = ra_args ra,
      sv_llm_output = ra_llm_output ra,
      sv_llm_api = ra_llm_api ra,
      sv_num_reasks = Some (ra_num_reasks ra),
      sv_prompt_params = ra_prompt_params ra,
      sv_metadata = Some [],
      sv_full_schema_reask = Some (ra_full_schema_reask ra),
      sv_call_log = Some (ra_call_log ra),
      sv_kwargs = ra_kwargs ra\<rparr>"

definition exec_route :: "env \<Rightarrow> guard \<Rightarrow> runner_args \<Rightarrow> (error + result) \<times> guard" where
  "exec_route env g ra =
     (if g_api_client g \<noteq> None
         \<and> model_is_supported_server_side env (ra_llm_api ra) (ra_args ra) (ra_kwargs ra)
      then call_server env (g\<lparr>trace := trace g @ [Dispatch Remote]\<rparr>) (ra_kwargs ra)
             (server_args_of ra)
      else if (case ra_llm_api ra of None \<Rightarrow> False | Some f \<Rightarrow> iscoroutinefunction f)
      then (Inr (Coroutine ra), g\<lparr>trace := trace g @ [Dispatch Async]\<rparr>)
      else exec_sync env g ra)"

definition exec :: "env \<Rightarrow> guard \<Rightarrow> exec_args \<Rightarrow> (error + result) \<times> guard" where
  "exec env g a =
     (case exec_prepare env g a of
        (Inl e, g1) \<Rightarrow> (Inl e, g1)
      | (Inr ra, g2) \<Rightarrow> exec_route env g2 ra)"

text \<open>
  \<^verbatim>\<open>Guard._execute\<close>: the two checks on the arguments, the check of the
  validators' metadata requirements, then \<^verbatim>\<open>__exec\<close> in a new context. A
  callable is truthy, so \<^verbatim>\<open>not llm_api\<close> is \<open>llm_api a = None\<close>.
\<close>

definition execute :: "env \<Rightarrow> guard \<Rightarrow> exec_args \<Rightarrow> (error + result) \<times> guard" where
  "execute env g a =
     (if llm_api a = None \<and> \<not> truthy_str (llm_output a)
      then (Inl (RuntimeError
                  (quoted ''llm_api'' @ '' or '' @ quoted ''llm_output'' @ '' must be provided!'')),
            g)
      else if \<not> truthy_str (llm_output a) \<and> llm_api a \<noteq> None
                \<and> \<not> truthy (py_or (prompt a) (msg_history a))
      then (Inl (RuntimeError
                  (quoted ''prompt'' @ '' or '' @ quoted ''msg_history''
                     @ '' must be provided in order to call an LLM!'')),
            g)
      else
        (let missing_keys = verify_metadata_requirements (metadata a) (g_validators g)
         in if missing_keys \<noteq> []
            then (Inl (ValueError (''Missing required metadata keys: '' @ join '', '' missing_keys)),
                  g)
            else exec env g a))"


section \<open>Concrete collaborators and inputs\<close>

text \<open>
  One instance of everything the theorems quantify over, on which they are exercised:
  a validator that needs two metadata keys; collaborators that answer in the simplest
  way (the schema of a string Guard puts the given validators under \<open>$\<close>, the
  remote service answers nothing, a runner appends one passing Iteration, the
  assembler reads the last Iteration); the three Guards that \<^verbatim>\<open>Guard()\<close>,
  \<^verbatim>\<open>Guard.from_string([])\<close> and \<^verbatim>\<open>Guard.from_pydantic(Pet)\<close> build with
  them; and a call with a synchronous target and a prompt.
\<close>

definition example_validator :: validator where
  "example_validator =
     \<lparr>rail_alias = ''length'', on_fail_descriptor = ''reask'',
      get_args = [(''max'', PInt 5)], required_metadata_keys = [''k1'', ''k2'']\<rparr>"

definition example_iteration :: iteration where
  "example_iteration =
     \<lparr>it_inputs =
        \<lparr>in_llm_api = None, in_llm_output = None, in_instructions = PNone,
         in_prompt = PStr ''say ok'', in_prompt_params = None, in_num_reasks = 1,
         in_metadata = None, in_full_schema_reask = Some False\<rparr>,
      it_outputs =
        \<lparr>raw_output = Some ''ok'', parsed_output = PStr ''ok'',
         validated_output = PStr ''ok'', reasks = []\<rparr>\<rparr>"

definition example_exec_opts :: guard_execution_options where
  "example_exec_opts =
     \<lparr>eo_prompt = PNone, eo_instructions = PNone,
      eo_reask_prompt = PNone, eo_reask_instructions = PNone\<rparr>"

definition example_assembler :: "call \<Rightarrow> validation_outcome \<times> call" where
  "example_assembler c =
     (case iterations c of
        [] \<Rightarrow>
          (\<lparr>raw_llm_output = None, vo_validated_output = PNone,
            validation_passed = True, error = None\<rparr>, c)
      | i # is \<Rightarrow>
          (\<lparr>raw_llm_output = raw_output (it_outputs (last (i # is))),
            vo_validated_output = validated_output (it_outputs (last (i # is))),
            validation_passed = (reasks (it_outputs (last (i # is))) = []),
            error = None\<rparr>, c))"

definition example_schema :: processed_schema where
  "example_schema =
     \<lparr>ps_validators = [], ps_validator_map = [],
      ps_json_schema = [(''type'', PStr ''object'')],
      ps_output_type = DICT, ps_exec_opts = example_exec_opts\<rparr>"

definition example_env :: env where
  "example_env =
     \<lparr>model_is_supported_server_side = (\<lambda>f a k. True),
      get_llm_api_enum = (\<lambda>f. case callable_name f of None \<Rightarrow> PNone | Some n \<Rightarrow> PStr n),
      get_validator = (\<lambda>s a k. case s of VInstance v \<Rightarrow> Inr v
                                | VClass n \<Rightarrow> Inr example_validator
                                | VTuple x y \<Rightarrow> Inr example_validator),
      get_llm_ask = (\<lambda>f a k. None),
      get_async_llm_ask = (\<lambda>f a k. None),
      primitive_to_schema =
        (\<lambda>vs d. Inr \<lparr>ps_validators =
                        map (\<lambda>v. \<lparr>ref_id = rail_alias v, ref_on = ''$'',
                                  ref_on_fail = on_fail_descriptor v,
                                  ref_kwargs = get_args v\<rparr>) vs,
                      ps_validator_map = [(''$'', vs)],
                      ps_json_schema = [(''type'', PStr ''string'')],
                      ps_output_type = STRING,
                      ps_exec_opts = example_exec_opts\<rparr>),
      pydantic_model_to_schema = (\<lambda>c. Inr example_schema),
      rail_file_to_schema = (\<lambda>c. Inr example_schema),
      rail_string_to_schema = (\<lambda>c. Inr example_schema),
      random_id = ''id0'',
      py_str = (\<lambda>v. case v of PStr t \<Rightarrow> t | _ \<Rightarrow> ''5''),
      safe_get = (\<lambda>xs i. if i < length xs then Some (xs ! i) else None),
      model_schema = (\<lambda>d. Inr (PDict d)),
      schema_to_dict = (\<lambda>ms. Inr ms),
      environ_api_key = None,
      upsert_guard = (\<lambda>k. None),
      api_validate = (\<lambda>c p k. None),
      remote_iteration = (\<lambda>inp h. Inr example_iteration),
      run = (\<lambda>cfg c pp. (None, c\<lparr>iterations := iterations c @ [example_iteration]\<rparr>)),
      async_run = (\<lambda>cfg c pp. (None, c\<lparr>iterations := iterations c @ [example_iteration]\<rparr>)),
      from_guard_history = example_assembler,
      create_new_span = (\<lambda>attributes. None),
      rc_credentials = \<lparr>cred_id = Some ''user'', no_metrics = Some True\<rparr>,
      get_tracer_context = (\<lambda>t. None),
      rail_output_type = Inr ''str''\<rparr>"

definition example_factory_args :: factory_args where
  "example_factory_args =
     \<lparr>fa_prompt = PNone, fa_instructions = PNone, fa_reask_prompt = PNone,
      fa_reask_instructions = PNone, fa_num_reasks = None, fa_tracer = None\<rparr>"

text \<open>\<^verbatim>\<open>Guard()\<close>: nothing but \<^verbatim>\<open>__init__\<close> has run.\<close>

definition example_bare_guard :: guard where
  "example_bare_guard =
     \<lparr>guard_id = ''id0'', validators = [], output_schema = Some (PDict []),
      g_num_reasks = None, g_rail = None, g_base_model = Unassigned, g_tracer = None,
      g_tracer_context = None, g_hub_telemetry = False, g_user_id = None,
      g_validator_map = [], g_validators = [], g_api_client = None,
      g_allow_metrics_collection = None, g_exec_opts = Unassigned,
      g_output_type = Unassigned, g_history = [], trace = []\<rparr>"

text \<open>\<^verbatim>\<open>Guard.from_string([])\<close>: no base model is stored.\<close>

definition example_guard :: guard where
  "example_guard =
     \<lparr>guard_id = ''id0'', validators = [],
      output_schema = Some (PDict [(''type'', PStr ''string'')]),
      g_num_reasks = None, g_rail = None, g_base_model = Unassigned, g_tracer = None,
      g_tracer_context = None, g_hub_telemetry = False, g_user_id = None,
      g_validator_map = [(''$'', [])], g_validators = [], g_api_client = None,
      g_allow_metrics_collection = Some False, g_exec_opts = Assigned example_exec_opts,
      g_output_type = Assigned STRING, g_history = [], trace = []\<rparr>"

text \<open>\<^verbatim>\<open>Guard.from_pydantic(Pet)\<close>.\<close>

definition example_model_guard :: guard where
  "example_model_guard =
     \<lparr>guard_id = ''id0'', validators = [],
      output_schema = Some (PDict [(''type'', PStr ''object'')]),
      g_num_reasks = None, g_rail = None, g_base_model = Assigned (Some ''Pet''),
      g_tracer = None, g_tracer_context = None, g_hub_telemetry = False,
      g_user_id = None, g_validator_map = [], g_validators = [], g_api_client = None,
      g_allow_metrics_collection = Some False, g_exec_opts = Assigned example_exec_opts,
      g_output_type = Assigned DICT, g_history = [], trace = []\<rparr>"

definition example_args :: exec_args where
  "example_args =
     \<lparr>args = [], llm_api = Some (LlmCallable (Some ''completion'') False), llm_output = None,
      prompt_params = None, num_reasks = Some 1, prompt = PStr ''say ok'',
      instructions = PNone, msg_history = PNone, metadata = Some [],
      full_schema_reask = None, kwargs = []\<rparr>"

text \<open>What \<^verbatim>\<open>__exec\<close> prepares for \<open>example_args\<close> on the Guard built from a
  model class, and a call of \<^verbatim>\<open>parse\<close> with a prompt and no message history.\<close>

definition example_runner_args :: runner_args where
  "example_runner_args =
     \<lparr>ra_args = [], ra_llm_api = Some (LlmCallable (Some ''completion'') False),
      ra_llm_output = None, ra_call_log = 0, ra_prompt_params = None, ra_num_reasks = 1,
      ra_metadata = Some [], ra_full_schema_reask = True, ra_prompt = PStr ''say ok'',
      ra_instructions = PNone, ra_msg_history = PNone, ra_kwargs = []\<rparr>"


section \<open>The example Guards are what the constructors build\<close>

lemma init_example: "init example_env None [] [] = Inr example_bare_guard"
  by (simp add: init_def example_env_def fill_validator_map_def fill_validators_def
        example_bare_guard_def)

lemma from_string_example:
  "from_string example_env [] PNone example_factory_args = Inr example_guard"
  by (simp add: from_string_def init_def finish_guard_def configure_def configure_telemtry_def
        set_tracer_def truthy_int_def factory_exec_opts_def example_env_def
        example_factory_args_def example_exec_opts_def fill_validator_map_def
        fill_validators_def example_guard_def Let_def)

lemma from_pydantic_example:
  "from_pydantic example_env ''Pet'' example_factory_args = Inr example_model_guard"
  by (simp add: from_pydantic_def init_def finish_guard_def configure_def
        configure_telemtry_def set_tracer_def truthy_int_def factory_exec_opts_def
        example_env_def example_factory_args_def example_exec_opts_def example_schema_def
        fill_validator_map_def fill_validators_def example_model_guard_def Let_def)

lemma from_rail_schema_example:
  "from_rail_schema example_env example_schema ''guard.rail'' example_factory_args
     = Inr (example_model_guard\<lparr>g_rail := Some ''guard.rail'', g_base_model := Unassigned\<rparr>)"
  by (simp add: from_rail_schema_def init_def finish_guard_def configure_def
        configure_telemtry_def set_tracer_def truthy_int_def
        example_env_def example_factory_args_def example_exec_opts_def example_schema_def
        fill_validator_map_def fill_validators_def example_model_guard_def Let_def)

section \<open>Frame lemmas\<close>

lemma configure_telemtry_num_reasks:
  "g_num_reasks (snd (configure_telemtry env g amc)) = g_num_reasks g"
  by (simp add: configure_telemtry_def Let_def split: option.splits)

lemma configure_num_reasks:
  "g_num_reasks (snd (configure env g n tr amc)) = (if truthy_int n then n else g_num_reasks g)"
  by (simp add: configure_def Let_def configure_telemtry_num_reasks set_num_reasks_def
        set_tracer_def)

lemma update_call_frame:
  "g_num_reasks (update_call i f g) = g_num_reasks g"
  "trace (update_call i f g) = trace g"
  "g_validator_map (update_call i f g) = g_validator_map g"
  by (simp_all add: update_call_def)

lemma merge_session_history_frame:
  "g_num_reasks (snd (merge_session_history env inp hs g r)) = g_num_reasks g
   \<and> trace (snd (merge_session_history env inp hs g r)) = trace g"
  by (induction env inp hs g r rule: merge_session_history.induct)
     (auto simp: update_call_frame Let_def split: sum.splits call_ref.splits)

lemma merge_response_frame:
  "g_num_reasks (snd (merge_response env g sv vo)) = g_num_reasks g
   \<and> trace (snd (merge_response env g sv vo)) = trace g"
proof -
  obtain r g2 where m: "merge_session_history env
        \<lparr>in_llm_api = sv_llm_api sv, in_llm_output = sv_llm_output sv, in_instructions = PNone,
         in_prompt = PNone, in_prompt_params = sv_prompt_params sv,
         in_num_reasks = (case sv_num_reasks sv of None \<Rightarrow> 0 | Some n \<Rightarrow> n),
         in_metadata = sv_metadata sv, in_full_schema_reask = sv_full_schema_reask sv\<rparr>
        (case vr_session_history vo of None \<Rightarrow> [] | Some sh \<Rightarrow> sh) g
        (case sv_call_log sv of Some i \<Rightarrow> InHistory i
                              | None \<Rightarrow> Fresh \<lparr>inputs = None, iterations = []\<rparr>) = (r, g2)"
    by (rule prod.exhaust)
  from merge_session_history_frame [of env _ _ g] m
  have "g_num_reasks g2 = g_num_reasks g \<and> trace g2 = trace g"
    by (metis snd_conv)
  then show ?thesis
    by (cases r) (simp_all add: merge_response_def Let_def m)
qed

lemma call_server_num_reasks:
  "g_num_reasks (snd (call_server env g ck sv)) = g_num_reasks g"
  by (simp add: call_server_def Let_def merge_response_frame split: option.splits)

lemma run_and_assemble_frame:
  "g_num_reasks (snd (run_and_assemble env r cfg g ra)) = g_num_reasks g
   \<and> trace (snd (run_and_assemble env r cfg g ra)) = trace g"
  by (auto simp: run_and_assemble_def update_call_frame split: option.splits prod.splits)

lemma exec_sync_num_reasks:
  "g_num_reasks (snd (exec_sync env g ra)) = g_num_reasks g"
  by (simp add: exec_sync_def run_and_assemble_frame split: sum.splits)

lemma exec_route_num_reasks:
  "g_num_reasks (snd (exec_route env g ra)) = g_num_reasks g"
  by (simp add: exec_route_def call_server_num_reasks exec_sync_num_reasks)

lemma exec_prepare_frame:
  "g_num_reasks (snd (exec_prepare env g a))
     = (case exec_begin env g a of Inl e \<Rightarrow> g_num_reasks g | Inr fsr \<Rightarrow> num_reasks a)
   \<and> trace (snd (exec_prepare env g a)) = trace g"
  by (cases "num_reasks a")
     (simp_all add: exec_prepare_def Let_def set_num_reasks_def split: sum.splits)

lemma exec_num_reasks:
  "g_num_reasks (snd (exec env g a))
     = (case exec_begin env g a of Inl e \<Rightarrow> g_num_reasks g | Inr fsr \<Rightarrow> num_reasks a)"
proof -
  obtain r g1 where p: "exec_prepare env g a = (r, g1)" by (cases "exec_prepare env g a")
  then have "g_num_reasks g1
     = (case exec_begin env g a of Inl e \<Rightarrow> g_num_reasks g | Inr fsr \<Rightarrow> num_reasks a)"
    using exec_prepare_frame [of env g a] by simp
  then show ?thesis
    by (cases r) (simp_all add: exec_def p exec_route_num_reasks)
qed



lemma merge_response_outcome:
  "fst (merge_response env g sv vo) = Inr r \<Longrightarrow> \<exists>out. r = Outcome out"
  by (auto simp: merge_response_def Let_def split: prod.splits sum.splits)

lemma call_server_outcome:
  "fst (call_server env g ck sv) = Inr r \<Longrightarrow> \<exists>out. r = Outcome out"
  by (auto simp: call_server_def Let_def split: option.splits dest: merge_response_outcome)




lemma exec_prepare_args:
  assumes "exec_prepare env g a = (Inr ra, g2)"
  shows "ra_llm_api ra = llm_api a" and "ra_args ra = args a" and "ra_kwargs ra = kwargs a"
    and "g_api_client g2 = g_api_client g" and "trace g2 = trace g"
    and "ra_llm_output ra = llm_output a" and "ra_prompt_params ra = prompt_params a"
    and "num_reasks a = Some (ra_num_reasks ra)"
    and "g_history g2 = g_history g @ [\<lparr>inputs = inputs (last (g_history g2)), iterations = []\<rparr>]"
    and "ra_call_log ra = length (g_history g)"
    and "exec_begin env g a = Inr (ra_full_schema_reask ra)"
    and "map_option ci_full_schema_reask (inputs (last (g_history g2)))
           = Some (ra_full_schema_reask ra)"
  using assms
  by (auto simp: exec_prepare_def Let_def set_num_reasks_def split: sum.splits option.splits)

lemma sublist_prepend: "sublist k ys \<Longrightarrow> sublist k (ps @ ys)"
  by (simp add: sublist_append)

lemma sublist_join:
  "k \<in> set ks \<Longrightarrow> sublist k (join sep ks)"
proof (induction sep ks rule: join.induct)
  case (1 sep)
  then show ?case by simp
next
  case (2 sep x)
  then show ?case by simp
next
  case (3 sep x y ys)
  show ?case
  proof (cases "k = x")
    case True
    then show ?thesis by (simp add: sublist_append_rightI)
  next
    case False
    then have "k \<in> set (y # ys)" using 3 by simp
    then have "sublist k (join sep (y # ys))" using 3 by simp
    then have "sublist k (x @ sep @ join sep (y # ys))"
      by (intro sublist_prepend)
    then show ?thesis by simp
  qed
qed

lemma verify_metadata_requirements_set:
  "set (verify_metadata_requirements (Some m) vs)
     = {k. \<exists>v \<in> set vs. k \<in> set (required_metadata_keys v) \<and> k \<notin> fst ` set m}"
  by (auto simp: verify_metadata_requirements_def)

section \<open>The validator map and its empty entries\<close>

lemma validator_map_ok_update:
  "validator_map_ok m \<Longrightarrow> vs \<noteq> [] \<Longrightarrow> validator_map_ok (AList.update k vs m)"
  unfolding validator_map_ok_def by (induction m) auto

lemma fill_validator_map_refs_ok:
  "validator_map_ok (g_validator_map g) \<Longrightarrow>
   validator_map_ok (g_validator_map (snd (fill_validator_map_refs env refs g)))"
proof (induction refs arbitrary: g)
  case Nil
  then show ?case by simp
next
  case (Cons r refs)
  show ?case
  proof (cases "safe_get env
                (filter (\<lambda>v. rail_alias v = ref_id r
                               \<and> on_fail_descriptor v = ref_on_fail r
                               \<and> dict_eq (get_args v) (ref_kwargs r))
                        (dict_get_default (g_validator_map g) (ref_on r) [])) 0 = None")
    case False
    then show ?thesis using Cons by (simp add: Let_def)
  next
    case True
    show ?thesis using True Cons.prems
      by (auto simp: Let_def validator_map_ok_update split: sum.splits intro!: Cons.IH)
  qed
qed

lemma add_validator_ok:
  "validator_map_ok (g_validator_map g) \<Longrightarrow>
   validator_map_ok (g_validator_map (snd (add_validator g v on)))"
  by (simp add: add_validator_def Let_def update_conv' validator_map_ok_update
        split: sum.splits)

lemma use_ok:
  "validator_map_ok (g_validator_map g) \<Longrightarrow>
   validator_map_ok (g_validator_map (snd (use env g v vargs on vkwargs)))"
  by (simp add: use_def add_validator_ok split: sum.splits)

lemma use_many_loop_ok:
  "validator_map_ok (g_validator_map g) \<Longrightarrow>
   validator_map_ok (g_validator_map (snd (use_many_loop env vs on g)))"
proof (induction vs arbitrary: g)
  case Nil
  then show ?case by simp
next
  case (Cons s vs)
  show ?case
  proof (cases "get_validator env s [] []")
    case (Inl e)
    then show ?thesis using Cons.prems by simp
  next
    case (Inr hv)
    obtain r g1 where a: "add_validator g hv on = (r, g1)" by (cases "add_validator g hv on")
    have ok1: "validator_map_ok (g_validator_map g1)"
      using add_validator_ok [OF Cons.prems, of hv on] a by simp
    show ?thesis
    proof (cases r)
      case (Inl e)
      then show ?thesis using Inr a ok1 by simp
    next
      case (Inr u)
      then show ?thesis
        using \<open>get_validator env s [] [] = Inr hv\<close> a Cons.IH [OF ok1] by simp
    qed
  qed
qed

lemma use_many_ok:
  "validator_map_ok (g_validator_map g) \<Longrightarrow>
   validator_map_ok (g_validator_map (snd (use_many env g vs on)))"
  by (simp add: use_many_def use_many_loop_ok split: sum.splits)

lemma fill_validator_map_from_empty:
  assumes "fill_validator_map env g0 = (r, g1)" and "g_validator_map g0 = []"
  shows "validator_map_ok (g_validator_map g1)"
proof -
  have "validator_map_ok (g_validator_map g0)"
    using assms(2) by (simp add: validator_map_ok_def)
  then have "validator_map_ok (g_validator_map (snd (fill_validator_map env g0)))"
    unfolding fill_validator_map_def by (rule fill_validator_map_refs_ok)
  then show ?thesis using assms(1) by simp
qed

lemma init_ok:
  assumes "init env ident refs sd = Inr g"
  shows "validator_map_ok (g_validator_map g)"
  using assms
  by (auto simp: init_def Let_def fill_validators_def
           split: sum.splits prod.splits option.splits
           dest: fill_validator_map_from_empty)

lemma finish_guard_map:
  "finish_guard env g fa schema eo = Inr g1 \<Longrightarrow> g_validator_map g1 = ps_validator_map schema"
  by (auto simp: finish_guard_def split: prod.splits sum.splits)

lemma from_rail_schema_map:
  "from_rail_schema env schema rail fa = Inr g \<Longrightarrow> g_validator_map g = ps_validator_map schema"
  by (auto simp: from_rail_schema_def split: sum.splits dest: finish_guard_map)

lemma from_string_map:
  "from_string env vs d fa = Inr g \<Longrightarrow>
   \<exists>schema. primitive_to_schema env vs d = Inr schema
            \<and> g_validator_map g = ps_validator_map schema"
  by (auto simp: from_string_def split: sum.splits dest: finish_guard_map)

lemma from_pydantic_map:
  "from_pydantic env c fa = Inr g \<Longrightarrow>
   \<exists>schema. pydantic_model_to_schema env c = Inr schema
            \<and> g_validator_map g = ps_validator_map schema"
  by (auto simp: from_pydantic_def split: sum.splits dest: finish_guard_map)

text \<open>
  C7, as the code has it. The validator map that \<^verbatim>\<open>__init__\<close> builds from the
  references has no path with an empty list of validators, and every operation that
  adds validators (\<^verbatim>\<open>_fill_validator_map\<close>, \<^verbatim>\<open>__add_validator\<close>, \<^verbatim>\<open>use\<close>,
  \<^verbatim>\<open>use_many\<close>) takes a map without empty entries to a map without empty
  entries, also when it ends with an exception. The factory constructors replace
  the map of \<^verbatim>\<open>__init__\<close> by the validator map of the schema, whatever it holds.
\<close>

theorem validator_map_entries_nonempty:
  "(init env ident refs sd = Inr g0 \<longrightarrow> validator_map_ok (g_validator_map g0))
   \<and> (validator_map_ok (g_validator_map g) \<longrightarrow>
        validator_map_ok (g_validator_map (snd (fill_validator_map env g)))
        \<and> validator_map_ok (g_validator_map (snd (add_validator g v on)))
        \<and> validator_map_ok (g_validator_map (snd (use env g s vargs on vkwargs)))
        \<and> validator_map_ok (g_validator_map (snd (use_many env g ss on))))
   \<and> (from_string env vs d fa = Inr g1 \<longrightarrow>
        (\<exists>schema. primitive_to_schema env vs d = Inr schema
                  \<and> g_validator_map g1 = ps_validator_map schema))
   \<and> (from_pydantic env c fa = Inr g2 \<longrightarrow>
        (\<exists>schema. pydantic_model_to_schema env c = Inr schema
                  \<and> g_validator_map g2 = ps_validator_map schema))
   \<and> (from_rail_schema env rs rail fa = Inr g3 \<longrightarrow>
        g_validator_map g3 = ps_validator_map rs)"
  using init_ok fill_validator_map_refs_ok add_validator_ok use_ok use_many_ok
    from_string_map from_pydantic_map from_rail_schema_map
  by (simp add: fill_validator_map_def)

theorem validator_map_entries_nonempty_witness:
  "init example_env None [] [] = Inr example_bare_guard
   \<and> validator_map_ok (g_validator_map example_bare_guard)
   \<and> validator_map_ok (g_validator_map (example_guard\<lparr>g_validator_map := []\<rparr>))
   \<and> g_validator_map
        (snd (add_validator (example_guard\<lparr>g_validator_map := []\<rparr>) example_validator ''output''))
       = [(''$'', [example_validator])]
   \<and> validator_map_ok
       (g_validator_map
          (snd (use_many example_env (example_guard\<lparr>g_validator_map := []\<rparr>)
                  [VInstance example_validator, VClass ''other''] ''output'')))
   \<and> from_string example_env [] PNone example_factory_args = Inr example_guard
   \<and> g_validator_map example_guard = [(''$'', [])]
   \<and> from_pydantic example_env ''Pet'' example_factory_args = Inr example_model_guard
   \<and> g_validator_map example_model_guard = ps_validator_map example_schema
   \<and> from_rail_schema example_env example_schema ''guard.rail'' example_factory_args
       = Inr (example_model_guard\<lparr>g_rail := Some ''guard.rail'', g_base_model := Unassigned\<rparr>)
   \<and> g_validator_map
         (example_model_guard\<lparr>g_rail := Some ''guard.rail'', g_base_model := Unassigned\<rparr>)
       = ps_validator_map example_schema"
proof -
  have h: "validator_map_ok (g_validator_map (example_guard\<lparr>g_validator_map := []\<rparr>))"
    by (simp add: validator_map_ok_def)
  have m: "g_validator_map
             (snd (add_validator (example_guard\<lparr>g_validator_map := []\<rparr>) example_validator
                     ''output''))
             = [(''$'', [example_validator])]"
    by (simp add: add_validator_def example_guard_def Let_def dict_get_default_def read_attr_def)
  have s: "primitive_to_schema example_env [] PNone
             = Inr \<lparr>ps_validators = [], ps_validator_map = [(''$'', [])],
                    ps_json_schema = [(''type'', PStr ''string'')],
                    ps_output_type = STRING, ps_exec_opts = example_exec_opts\<rparr>"
    "pydantic_model_to_schema example_env ''Pet'' = Inr example_schema"
    by (simp_all add: example_env_def)
  show ?thesis
    using h m s init_example from_string_example from_pydantic_example from_rail_schema_example
      validator_map_entries_nonempty
        [where env = example_env and ident = None and refs = "[]" and sd = "[]"
           and ?g0.0 = example_bare_guard
           and g = "example_guard\<lparr>g_validator_map := []\<rparr>"
           and v = example_validator and on = "''output''"
           and ss = "[VInstance example_validator, VClass ''other'']"
           and vs = "[]" and d = PNone and ?g1.0 = example_guard
           and c = "''Pet''" and fa = example_factory_args and ?g2.0 = example_model_guard
           and rs = example_schema and rail = "''guard.rail''"
           and ?g3.0 = "example_model_guard\<lparr>g_rail := Some ''guard.rail'',
                                            g_base_model := Unassigned\<rparr>"]
    by auto
qed

text \<open>
  C7 as stated does not hold for every Guard: \<^verbatim>\<open>Guard.from_string([])\<close> ends
  with the schema's validator map, which stores the empty list of validators under
  \<open>$\<close>.
\<close>

theorem validator_map_entries_nonempty_counterexample:
  "from_string example_env [] PNone example_factory_args = Inr example_guard
   \<and> g_validator_map example_guard = [(''$'', [])]
   \<and> \<not> validator_map_ok (g_validator_map example_guard)"
  using from_string_example by (simp add: example_guard_def validator_map_ok_def)

section \<open>A retry budget of zero and \<^verbatim>\<open>configure\<close>\<close>

text \<open>
  C10. \<^verbatim>\<open>configure\<close> with \<^verbatim>\<open>num_reasks=0\<close> leaves the stored retry budget as
  it was, and with a positive \<^verbatim>\<open>num_reasks\<close> stores that value; so no call of
  \<^verbatim>\<open>configure\<close> makes the stored budget 0 unless it was 0 before. A call with
  \<^verbatim>\<open>num_reasks=0\<close> does store 0, once \<^verbatim>\<open>__exec\<close> has got as far as the
  assignment.
\<close>

theorem configure_discards_zero_num_reasks:
  "g_num_reasks (snd (configure env g (Some 0) tr amc)) = g_num_reasks g
   \<and> (0 < n \<longrightarrow> g_num_reasks (snd (configure env g (Some n) tr amc)) = Some n)
   \<and> (g_num_reasks g \<noteq> Some 0 \<longrightarrow>
        g_num_reasks (snd (configure env g nr tr amc)) \<noteq> Some 0)
   \<and> (exec_begin env g (a\<lparr>num_reasks := Some 0\<rparr>) = Inr fsr \<longrightarrow>
        g_num_reasks (snd (exec env g (a\<lparr>num_reasks := Some 0\<rparr>))) = Some 0)"
  by (cases nr) (simp_all add: configure_num_reasks exec_num_reasks truthy_int_def)

theorem configure_discards_zero_num_reasks_witness:
  "g_num_reasks (snd (configure example_env (example_model_guard\<lparr>g_num_reasks := Some 2\<rparr>)
                        (Some 0) None None)) = Some 2
   \<and> (0::int) < 3
   \<and> g_num_reasks (snd (configure example_env (example_model_guard\<lparr>g_num_reasks := Some 2\<rparr>)
                          (Some 3) None None)) = Some 3
   \<and> g_num_reasks (example_model_guard\<lparr>g_num_reasks := Some 2\<rparr>) \<noteq> Some 0
   \<and> g_num_reasks (snd (configure example_env (example_model_guard\<lparr>g_num_reasks := Some 2\<rparr>)
                          (Some 0) None None)) \<noteq> Some 0
   \<and> exec_begin example_env (example_model_guard\<lparr>g_num_reasks := Some 2\<rparr>)
         (example_args\<lparr>num_reasks := Some 0\<rparr>) = Inr True
   \<and> g_num_reasks (snd (exec example_env (example_model_guard\<lparr>g_num_reasks := Some 2\<rparr>)
                          (example_args\<lparr>num_reasks := Some 0\<rparr>))) = Some 0"
proof -
  have b: "exec_begin example_env (example_model_guard\<lparr>g_num_reasks := Some 2\<rparr>)
             (example_args\<lparr>num_reasks := Some 0\<rparr>) = Inr True"
    by (simp add: exec_begin_def read_attr_def example_args_def example_model_guard_def)
  show ?thesis
    using b
      configure_discards_zero_num_reasks
        [where env = example_env and g = "example_model_guard\<lparr>g_num_reasks := Some 2\<rparr>"
           and tr = None and amc = None and n = 3 and nr = "Some 0"
           and a = example_args and fsr = True]
    by simp
qed

section \<open>The checks before routing\<close>

text \<open>
  C2. If neither a generation target nor a model output is supplied, or if a target
  is supplied without an output and with neither a prompt nor a message history, then
  \<^verbatim>\<open>_execute\<close> raises a \<^verbatim>\<open>RuntimeError\<close> and leaves the Guard exactly as it
  was: no Call is recorded, no strategy is chosen and no generation is attempted. An
  argument that is not supplied is \<^verbatim>\<open>None\<close>, which is falsy; the code tests
  truthiness, so the empty string and the empty list are rejected in the same way.
\<close>

theorem execute_rejects_missing_inputs:
  assumes "(llm_api a = None \<and> \<not> truthy_str (llm_output a))
           \<or> (llm_api a \<noteq> None \<and> \<not> truthy_str (llm_output a)
               \<and> \<not> truthy (prompt a) \<and> \<not> truthy (msg_history a))"
  shows "execute env g a =
           (Inl (RuntimeError
                  (if llm_api a = None
                   then quoted ''llm_api'' @ '' or '' @ quoted ''llm_output''
                          @ '' must be provided!''
                   else quoted ''prompt'' @ '' or '' @ quoted ''msg_history''
                          @ '' must be provided in order to call an LLM!'')),
            g)"
  using assms by (auto simp: execute_def py_or_def)

theorem execute_rejects_missing_inputs_witness:
  "llm_api (example_args\<lparr>llm_api := None\<rparr>) = None
   \<and> llm_output (example_args\<lparr>llm_api := None\<rparr>) = None
   \<and> fst (execute example_env example_guard (example_args\<lparr>llm_api := None\<rparr>))
       = Inl (RuntimeError (quoted ''llm_api'' @ '' or '' @ quoted ''llm_output''
                              @ '' must be provided!''))
   \<and> snd (execute example_env example_guard (example_args\<lparr>llm_api := None\<rparr>)) = example_guard
   \<and> llm_api (example_args\<lparr>prompt := PNone\<rparr>) \<noteq> None
   \<and> llm_output (example_args\<lparr>prompt := PNone\<rparr>) = None
   \<and> prompt (example_args\<lparr>prompt := PNone\<rparr>) = PNone
   \<and> msg_history (example_args\<lparr>prompt := PNone\<rparr>) = PNone
   \<and> fst (execute example_env example_guard (example_args\<lparr>prompt := PNone\<rparr>))
       = Inl (RuntimeError (quoted ''prompt'' @ '' or '' @ quoted ''msg_history''
                              @ '' must be provided in order to call an LLM!''))
   \<and> snd (execute example_env example_guard (example_args\<lparr>prompt := PNone\<rparr>)) = example_guard"
  using execute_rejects_missing_inputs
          [of "example_args\<lparr>llm_api := None\<rparr>" example_env example_guard]
        execute_rejects_missing_inputs
          [of "example_args\<lparr>prompt := PNone\<rparr>" example_env example_guard]
  by (simp add: example_args_def truthy_str_def)

text \<open>
  C3, as the code has it. When the first two checks of \<^verbatim>\<open>_execute\<close> pass and
  some validator requires a metadata key that the supplied metadata map lacks,
  \<^verbatim>\<open>_execute\<close> raises a \<^verbatim>\<open>ValueError\<close>, leaves the Guard as it was, and the
  message of the error contains every required key that the map lacks.
\<close>

theorem execute_names_all_missing_metadata_keys:
  assumes "llm_api a \<noteq> None \<or> truthy_str (llm_output a)"
      and "truthy_str (llm_output a) \<or> llm_api a = None
             \<or> truthy (prompt a) \<or> truthy (msg_history a)"
      and "metadata a = Some m"
      and "v \<in> set (g_validators g)"
      and "k \<in> set (required_metadata_keys v)"
      and "k \<notin> fst ` set m"
  shows "execute env g a
           = (Inl (ValueError
                     (''Missing required metadata keys: ''
                        @ join '', '' (verify_metadata_requirements (Some m) (g_validators g)))),
              g)
         \<and> (\<forall>v' \<in> set (g_validators g). \<forall>k' \<in> set (required_metadata_keys v').
               k' \<notin> fst ` set m \<longrightarrow>
               sublist k' (''Missing required metadata keys: ''
                             @ join '', '' (verify_metadata_requirements (Some m) (g_validators g))))"
proof -
  let ?missing = "verify_metadata_requirements (Some m) (g_validators g)"
  have "k \<in> set ?missing"
    using assms(4-6) by (auto simp: verify_metadata_requirements_set)
  then have ne: "?missing \<noteq> []" by auto
  have e: "execute env g a
           = (Inl (ValueError (''Missing required metadata keys: '' @ join '', '' ?missing)), g)"
    using assms(1-3) ne by (auto simp: execute_def Let_def py_or_def)
  have "sublist k' (''Missing required metadata keys: '' @ join '', '' ?missing)"
    if "v' \<in> set (g_validators g)" "k' \<in> set (required_metadata_keys v')" "k' \<notin> fst ` set m"
    for v' k'
  proof -
    have "k' \<in> set ?missing" using that by (auto simp: verify_metadata_requirements_set)
    then have "sublist k' (join '', '' ?missing)" by (rule sublist_join)
    then show ?thesis by (rule sublist_prepend)
  qed
  with e show ?thesis by blast
qed

theorem execute_names_all_missing_metadata_keys_witness:
  "llm_api example_args \<noteq> None
   \<and> truthy (prompt example_args)
   \<and> metadata example_args = Some []
   \<and> example_validator \<in> set (g_validators (example_guard\<lparr>g_validators := [example_validator]\<rparr>))
   \<and> ''k1'' \<in> set (required_metadata_keys example_validator)
   \<and> ''k1'' \<notin> fst ` set ([] :: pyval dict)
   \<and> execute example_env (example_guard\<lparr>g_validators := [example_validator]\<rparr>) example_args
       = (Inl (ValueError ''Missing required metadata keys: k1, k2''),
          example_guard\<lparr>g_validators := [example_validator]\<rparr>)
   \<and> sublist ''k1'' ''Missing required metadata keys: k1, k2''
   \<and> sublist ''k2'' ''Missing required metadata keys: k1, k2''"
proof -
  have m: "verify_metadata_requirements (Some []) [example_validator] = [''k1'', ''k2'']"
    by (simp add: verify_metadata_requirements_def example_validator_def)
  have r: "required_metadata_keys example_validator = [''k1'', ''k2'']"
    by (simp add: example_validator_def)
  show ?thesis
    using execute_names_all_missing_metadata_keys
            [of example_args "[]" example_validator
                "example_guard\<lparr>g_validators := [example_validator]\<rparr>" "''k1''" example_env]
    by (simp add: m r example_args_def)
qed

text \<open>
  C3 as stated does not hold for every call: with neither a target nor an output,
  the first check raises its \<^verbatim>\<open>RuntimeError\<close> before the metadata is looked at,
  and that message names no key, although \<open>k1\<close> is required and missing.
\<close>

theorem execute_missing_metadata_keys_counterexample:
  "''k1'' \<in> set (required_metadata_keys example_validator)
   \<and> ''k1'' \<notin> fst ` set ([] :: pyval dict)
   \<and> metadata (example_args\<lparr>llm_api := None\<rparr>) = Some []
   \<and> execute example_env (example_guard\<lparr>g_validators := [example_validator]\<rparr>)
         (example_args\<lparr>llm_api := None\<rparr>)
       = (Inl (RuntimeError (quoted ''llm_api'' @ '' or '' @ quoted ''llm_output''
                               @ '' must be provided!'')),
          example_guard\<lparr>g_validators := [example_validator]\<rparr>)
   \<and> \<not> sublist ''k1'' (quoted ''llm_api'' @ '' or '' @ quoted ''llm_output''
                           @ '' must be provided!'')"
proof -
  have n: "\<not> sublist ''k1'' (quoted ''llm_api'' @ '' or '' @ quoted ''llm_output''
                              @ '' must be provided!'')"
    by code_simp
  show ?thesis
    using n by (simp add: execute_def example_args_def example_validator_def truthy_str_def)
qed

section \<open>The choice of the strategy\<close>




section \<open>Preparing the invocation\<close>

text \<open>
  C4. The effective \<^verbatim>\<open>full_schema_reask\<close> is the caller's value when one is
  given, and it is then the value recorded in the inputs of the new Call and the
  value every strategy is called with. When the caller gives none, the code reads
  \<^verbatim>\<open>self._base_model\<close>: on a Guard on which the attribute has been assigned
  the value is true iff a model class is stored; on any other Guard, such as one
  built by \<^verbatim>\<open>from_string\<close>, the read raises \<^verbatim>\<open>AttributeError\<close> and the
  invocation ends there, with the Guard as it was, where the claim and the docstring
  of \<^verbatim>\<open>__call__\<close> say that the value is false.
\<close>

theorem full_schema_reask_resolved_at_start:
  "(full_schema_reask a = None \<and> g_base_model g = Unassigned \<longrightarrow>
      exec env g a = (Inl (AttributeError ''_base_model''), g))
   \<and> (exec_prepare env g a = (Inr ra, g2) \<and> full_schema_reask a = Some b \<longrightarrow>
        ra_full_schema_reask ra = b
        \<and> map_option ci_full_schema_reask (inputs (last (g_history g2))) = Some b)
   \<and> (exec_prepare env g a = (Inr ra, g2) \<and> full_schema_reask a = None
        \<and> g_base_model g = Assigned m \<longrightarrow>
        ra_full_schema_reask ra = (m \<noteq> None)
        \<and> map_option ci_full_schema_reask (inputs (last (g_history g2))) = Some (m \<noteq> None))"
proof (intro conjI impI)
  assume "full_schema_reask a = None \<and> g_base_model g = Unassigned"
  then show "exec env g a = (Inl (AttributeError ''_base_model''), g)"
    by (simp add: exec_def exec_prepare_def exec_begin_def read_attr_def)
next
  assume h: "exec_prepare env g a = (Inr ra, g2) \<and> full_schema_reask a = Some b"
  then have p: "exec_prepare env g a = (Inr ra, g2)" by simp
  from exec_prepare_args(11) [OF p] h have "ra_full_schema_reask ra = b"
    by (auto simp: exec_begin_def split: if_splits sum.splits option.splits)
  then show "ra_full_schema_reask ra = b"
    and "map_option ci_full_schema_reask (inputs (last (g_history g2))) = Some b"
    using exec_prepare_args(12) [OF p] by simp_all
next
  assume h: "exec_prepare env g a = (Inr ra, g2) \<and> full_schema_reask a = None
               \<and> g_base_model g = Assigned m"
  then have p: "exec_prepare env g a = (Inr ra, g2)" by simp
  from exec_prepare_args(11) [OF p] h have "ra_full_schema_reask ra = (m \<noteq> None)"
    by (auto simp: exec_begin_def read_attr_def split: if_splits sum.splits option.splits)
  then show "ra_full_schema_reask ra = (m \<noteq> None)"
    and "map_option ci_full_schema_reask (inputs (last (g_history g2))) = Some (m \<noteq> None)"
    using exec_prepare_args(12) [OF p] by simp_all
qed

theorem full_schema_reask_resolved_at_start_witness:
  "from_string example_env [] PNone example_factory_args = Inr example_guard
   \<and> full_schema_reask example_args = None
   \<and> g_base_model example_guard = Unassigned
   \<and> exec example_env example_guard example_args
       = (Inl (AttributeError ''_base_model''), example_guard)
   \<and> execute example_env example_guard example_args
       = (Inl (AttributeError ''_base_model''), example_guard)
   \<and> fst (exec_prepare example_env example_guard
             (example_args\<lparr>full_schema_reask := Some True\<rparr>)) = Inr example_runner_args
   \<and> g_base_model example_model_guard = Assigned (Some ''Pet'')
   \<and> fst (exec_prepare example_env example_model_guard example_args) = Inr example_runner_args
   \<and> ra_full_schema_reask example_runner_args = True"
proof -
  have u: "full_schema_reask example_args = None" "g_base_model example_guard = Unassigned"
    "g_base_model example_model_guard = Assigned (Some ''Pet'')"
    by (simp_all add: example_args_def example_guard_def example_model_guard_def)
  have x: "execute example_env example_guard example_args
             = exec example_env example_guard example_args"
    by (simp add: execute_def Let_def example_args_def example_guard_def truthy_str_def
          py_or_def verify_metadata_requirements_def)
  obtain g2 where p: "exec_prepare example_env example_guard
                        (example_args\<lparr>full_schema_reask := Some True\<rparr>)
                      = (Inr example_runner_args, g2)"
    by (simp add: exec_prepare_def exec_begin_def or_exec_opt_def read_attr_def Let_def
          set_num_reasks_def example_args_def example_guard_def example_runner_args_def)
  obtain g3 where q: "exec_prepare example_env example_model_guard example_args
                      = (Inr example_runner_args, g3)"
    by (simp add: exec_prepare_def exec_begin_def or_exec_opt_def read_attr_def Let_def
          set_num_reasks_def example_args_def example_model_guard_def example_runner_args_def)
  show ?thesis
    using u x p q from_string_example
      full_schema_reask_resolved_at_start
        [where a = example_args and g = example_guard and env = example_env]
      full_schema_reask_resolved_at_start
        [where a = "example_args\<lparr>full_schema_reask := Some True\<rparr>" and g = example_guard
           and env = example_env and ra = example_runner_args and ?g2.0 = g2 and b = True]
      full_schema_reask_resolved_at_start
        [where a = example_args and g = example_model_guard and env = example_env
           and ra = example_runner_args and ?g2.0 = g3 and m = "Some ''Pet''"]
    by simp
qed

text \<open>
  C6, as the code has it. When \<^verbatim>\<open>__exec\<close> has got past its first statements
  (the read of \<^verbatim>\<open>self._base_model\<close> for a default \<^verbatim>\<open>full_schema_reask\<close>
  and the telemetry span) and the retry budget of the Guard is \<^verbatim>\<open>None\<close> after
  the caller's \<^verbatim>\<open>num_reasks\<close> has been assigned to it, which is the case exactly
  when the caller passed \<^verbatim>\<open>None\<close>, whatever was configured before, then
  \<^verbatim>\<open>__exec\<close> raises the \<^verbatim>\<open>RuntimeError\<close> of the invariant, with no Call
  recorded and no strategy chosen; and \<^verbatim>\<open>_execute\<close> as a whole ends with an
  exception.
\<close>

theorem exec_aborts_on_undefined_num_reasks:
  assumes "exec_begin env g a = Inr fsr"
      and "g_num_reasks (set_num_reasks g (num_reasks a)) = None"
  shows "exec env g a =
           (Inl (RuntimeError
              ''`num_reasks` is `None` after calling `configure()`. This should never happen.''),
            g\<lparr>g_num_reasks := None\<rparr>)
         \<and> (\<exists>e. fst (execute env g a) = Inl e)"
proof -
  have n: "num_reasks a = None" using assms(2) by (simp add: set_num_reasks_def)
  have e: "exec env g a =
           (Inl (RuntimeError
              ''`num_reasks` is `None` after calling `configure()`. This should never happen.''),
            g\<lparr>g_num_reasks := None\<rparr>)"
    by (simp add: exec_def exec_prepare_def Let_def set_num_reasks_def n assms(1))
  have "\<exists>e. fst (execute env g a) = Inl e"
    by (simp add: execute_def Let_def e)
  with e show ?thesis by simp
qed

theorem exec_aborts_on_undefined_num_reasks_witness:
  "exec_begin example_env (example_model_guard\<lparr>g_num_reasks := Some 3\<rparr>)
     (example_args\<lparr>num_reasks := None\<rparr>) = Inr True
   \<and> g_num_reasks (set_num_reasks (example_model_guard\<lparr>g_num_reasks := Some 3\<rparr>)
                     (num_reasks (example_args\<lparr>num_reasks := None\<rparr>))) = None
   \<and> exec example_env (example_model_guard\<lparr>g_num_reasks := Some 3\<rparr>)
        (example_args\<lparr>num_reasks := None\<rparr>)
       = (Inl (RuntimeError
           ''`num_reasks` is `None` after calling `configure()`. This should never happen.''),
          example_model_guard\<lparr>g_num_reasks := None\<rparr>)
   \<and> fst (execute example_env (example_model_guard\<lparr>g_num_reasks := Some 3\<rparr>)
             (example_args\<lparr>num_reasks := None\<rparr>))
       = Inl (RuntimeError
           ''`num_reasks` is `None` after calling `configure()`. This should never happen.'')"
proof -
  have e: "execute example_env (example_model_guard\<lparr>g_num_reasks := Some 3\<rparr>)
             (example_args\<lparr>num_reasks := None\<rparr>)
           = exec example_env (example_model_guard\<lparr>g_num_reasks := Some 3\<rparr>)
               (example_args\<lparr>num_reasks := None\<rparr>)"
    by (simp add: execute_def Let_def example_args_def example_model_guard_def truthy_str_def
          py_or_def verify_metadata_requirements_def)
  have b: "exec_begin example_env (example_model_guard\<lparr>g_num_reasks := Some 3\<rparr>)
             (example_args\<lparr>num_reasks := None\<rparr>) = Inr True"
    by (simp add: exec_begin_def read_attr_def example_args_def example_model_guard_def)
  have h: "g_num_reasks (set_num_reasks (example_model_guard\<lparr>g_num_reasks := Some 3\<rparr>)
                           (num_reasks (example_args\<lparr>num_reasks := None\<rparr>))) = None"
    by (simp add: set_num_reasks_def)
  show ?thesis
    using b h e exec_aborts_on_undefined_num_reasks [OF b h]
    by simp
qed

text \<open>
  C6 as stated does not hold for every invocation in which the caller passes
  \<^verbatim>\<open>None\<close> and nothing is configured. On the Guard of
  \<^verbatim>\<open>Guard.from_string([])\<close> the read of \<^verbatim>\<open>self._base_model\<close> raises
  \<^verbatim>\<open>AttributeError\<close> before the budget is assigned; and in \<^verbatim>\<open>_execute\<close> a
  missing metadata key raises its \<^verbatim>\<open>ValueError\<close> before \<^verbatim>\<open>__exec\<close> is
  entered.
\<close>

theorem exec_aborts_on_undefined_num_reasks_counterexample:
  "num_reasks (example_args\<lparr>num_reasks := None\<rparr>) = None
   \<and> g_num_reasks example_guard = None
   \<and> exec example_env example_guard (example_args\<lparr>num_reasks := None\<rparr>)
       = (Inl (AttributeError ''_base_model''), example_guard)
   \<and> g_num_reasks (example_model_guard\<lparr>g_validators := [example_validator]\<rparr>) = None
   \<and> execute example_env (example_model_guard\<lparr>g_validators := [example_validator]\<rparr>)
        (example_args\<lparr>num_reasks := None\<rparr>)
       = (Inl (ValueError ''Missing required metadata keys: k1, k2''),
          example_model_guard\<lparr>g_validators := [example_validator]\<rparr>)"
proof -
  have m: "verify_metadata_requirements (Some []) [example_validator] = [''k1'', ''k2'']"
    by (simp add: verify_metadata_requirements_def example_validator_def)
  have a: "exec example_env example_guard (example_args\<lparr>num_reasks := None\<rparr>)
             = (Inl (AttributeError ''_base_model''), example_guard)"
    by (simp add: exec_def exec_prepare_def exec_begin_def read_attr_def example_args_def
          example_guard_def)
  have b: "execute example_env (example_model_guard\<lparr>g_validators := [example_validator]\<rparr>)
             (example_args\<lparr>num_reasks := None\<rparr>)
           = (Inl (ValueError ''Missing required metadata keys: k1, k2''),
              example_model_guard\<lparr>g_validators := [example_validator]\<rparr>)"
    by (simp add: execute_def Let_def m example_args_def truthy_str_def py_or_def)
  show ?thesis
    using a b by (simp add: example_guard_def example_model_guard_def)
qed

section \<open>An empty answer of the remote service\<close>



section \<open>\<^verbatim>\<open>parse\<close> without a message history\<close>




end
